theory Spec2Isabelle
  imports
    Complex_Main
    "HOL-Library.Char_ord"
    "HOL-Library.List_Lexorder"
    "HOL-Library.Product_Lexorder"
begin

section \<open>queuectl: a job queue on one SQLite store\<close>

text \<open>
  A shallow embedding of \<^verbatim>\<open>queuectl.py\<close>. The SQLite table \<^verbatim>\<open>jobs\<close> is a list of
  rows in insertion order, every SQL statement is a function on that list, an exception
  or \<^verbatim>\<open>sys.exit\<close> is a value, and everything the program reads
  from outside (the environment, the clock, the outcome of the subprocess) is an argument
  of the function that reads it, one argument for each read.
\<close>

subsection \<open>Python text\<close>

text \<open>
  Identifiers, commands, timestamps and messages are byte strings as SQLite stores them.
  The only text the program slices is the captured output of a command; it is kept as the
  list of its code points, since \<^verbatim>\<open>output[:10000]\<close> counts code points and SQLite stores
  UTF-8 bytes.
\<close>

type_synonym codepoints = "nat list"

definition utf8_len :: "nat \<Rightarrow> nat" where
  "utf8_len cp = (if cp < 0x80 then 1 else if cp < 0x800 then 2 else if cp < 0x10000 then 3 else 4)"

definition utf8_bytes :: "codepoints \<Rightarrow> nat" where
  "utf8_bytes s = sum_list (map utf8_len s)"

definition startswith :: "string \<Rightarrow> string \<Rightarrow> bool" where
  "startswith s p \<longleftrightarrow> take (length p) s = p"

text \<open>
  \<^verbatim>\<open>s.replace(old, new)\<close>: every occurrence of \<open>old\<close>, left to right, without overlap.
  Both call sites pass a non-empty literal for \<open>old\<close>; for an empty \<open>old\<close> (where Python
  inserts \<open>new\<close> around every character) the function below returns \<open>s\<close>.
\<close>

fun str_replace :: "string \<Rightarrow> string \<Rightarrow> string \<Rightarrow> string" where
  "str_replace old new [] = []"
| "str_replace old new (c # cs) =
     (if old \<noteq> [] \<and> startswith (c # cs) old
      then new @ str_replace old new (drop (length old - 1) cs)
      else c # str_replace old new cs)"

fun digits :: "nat \<Rightarrow> string" where
  "digits n =
     (if n < 10 then [''0123456789'' ! n]
      else digits (n div 10) @ [''0123456789'' ! (n mod 10)])"

declare digits.simps [simp del]

definition str_int :: "int \<Rightarrow> string" where
  "str_int n = (if n < 0 then ''-'' @ digits (nat (- n)) else digits (nat n))"

text \<open>\<^verbatim>\<open>"%0wd" % n\<close> for a field \<open>n\<close> that is not negative.\<close>

definition fmt_d :: "nat \<Rightarrow> int \<Rightarrow> string" where
  "fmt_d w n = (let s = digits (nat n) in replicate (w - length s) (CHR ''0'') @ s)"

datatype py_error = OverflowError | ZeroDivisionError | SystemExit string

subsection \<open>Where the store lives\<close>

text \<open>
  The environment is the process environment after \<^verbatim>\<open>load_dotenv()\<close>. The two module
  constants are read once with their defaults, and \<^verbatim>\<open>_connect\<close> opens the path computed
  here.
\<close>

type_synonym environ = "string \<rightharpoonup> string"

definition getenv :: "environ \<Rightarrow> string \<Rightarrow> string \<Rightarrow> string" where
  "getenv env name dflt = (case env name of None \<Rightarrow> dflt | Some v \<Rightarrow> v)"

definition DATABASE_URL :: "environ \<Rightarrow> string" where
  "DATABASE_URL env = getenv env ''DATABASE_URL'' ''sqlite:///queuectl.db''"

definition QUEUECTL_DB :: "environ \<Rightarrow> string" where
  "QUEUECTL_DB env = getenv env ''QUEUECTL_DB'' ''queuectl.db''"

definition connect_db_path :: "environ \<Rightarrow> string" where
  "connect_db_path env =
     (let db_path = QUEUECTL_DB env in
      if startswith db_path ''sqlite:///'' then str_replace ''sqlite:///'' '''' db_path
      else if startswith (DATABASE_URL env) ''sqlite:///''
           then str_replace ''sqlite:///'' '''' (DATABASE_URL env)
      else db_path)"

subsection \<open>The clock\<close>

text \<open>
  A reading of \<^verbatim>\<open>datetime.now(timezone.utc)\<close> is an instant: the microseconds since
  0001-01-01T00:00:00 UTC, the origin of Python's proleptic Gregorian ordinal. The fields
  of the \<^verbatim>\<open>datetime\<close> object are computed from it as CPython does (\<^verbatim>\<open>_ord2ymd\<close>, and
  \<^verbatim>\<open>divmod\<close> for the time of day); Python's floor division is \<open>div\<close> on \<open>int\<close>.
\<close>

type_synonym instant = int

definition US_PER_DAY :: int where
  "US_PER_DAY = 86400000000"

definition MAXORDINAL :: int where
  "MAXORDINAL = 3652059"

definition DAYS_IN_MONTH :: "int list" where
  "DAYS_IN_MONTH = [-1, 31, 28, 31, 30, 31, 30, 31, 31, 30, 31, 30, 31]"

definition DAYS_BEFORE_MONTH :: "int list" where
  "DAYS_BEFORE_MONTH = [-1, 0, 31, 59, 90, 120, 151, 181, 212, 243, 273, 304, 334]"

text \<open>
  \<^verbatim>\<open>_ord2ymd\<close>, in the two parts it has: the four \<^verbatim>\<open>divmod\<close>s that count whole cycles of
  400, 100, 4 and 1 years, and the year, month and day from those counts and the day \<open>n\<close>
  within the year.
\<close>

definition ymd_of_counts :: "int \<Rightarrow> int \<Rightarrow> int \<Rightarrow> int \<Rightarrow> int \<Rightarrow> int \<times> int \<times> int" where
  "ymd_of_counts n400 n100 n4 n1 n =
     (let year = n400 * 400 + 1 + n100 * 100 + n4 * 4 + n1
      in if n1 = 4 \<or> n100 = 4 then (year - 1, 12, 31)
         else
           let leapyear = (n1 = 3 \<and> (n4 \<noteq> 24 \<or> n100 = 3));
               month = (n + 50) div 32;
               preceding = DAYS_BEFORE_MONTH ! nat month + (if month > 2 \<and> leapyear then 1 else 0)
           in if preceding > n
              then (year, month - 1,
                    n - (preceding - (DAYS_IN_MONTH ! nat (month - 1)
                                      + (if month - 1 = 2 \<and> leapyear then 1 else 0))) + 1)
              else (year, month, n - preceding + 1))"

definition ord2ymd :: "int \<Rightarrow> int \<times> int \<times> int" where
  "ord2ymd ordinal =
     (let n = ordinal - 1;
          n400 = n div 146097; n = n mod 146097;
          n100 = n div 36524; n = n mod 36524;
          n4 = n div 1461; n = n mod 1461;
          n1 = n div 365; n = n mod 365
      in ymd_of_counts n400 n100 n4 n1 n)"

definition dt_microsecond :: "instant \<Rightarrow> int" where
  "dt_microsecond t = t mod 1000000"

definition dt_second_of_day :: "instant \<Rightarrow> int" where
  "dt_second_of_day t = (t mod US_PER_DAY) div 1000000"

definition dt_ordinal :: "instant \<Rightarrow> int" where
  "dt_ordinal t = t div US_PER_DAY + 1"

text \<open>
  \<^verbatim>\<open>datetime.isoformat(sep)\<close> of an aware UTC value: the date, the separator, the time of
  day, the microseconds only when they are not zero, and the offset \<^verbatim>\<open>+00:00\<close>.
\<close>

definition isoformat :: "char \<Rightarrow> instant \<Rightarrow> string" where
  "isoformat sep t =
     (case ord2ymd (dt_ordinal t) of (year, month, day) \<Rightarrow>
        let sod = dt_second_of_day t; us = dt_microsecond t in
        fmt_d 4 year @ ''-'' @ fmt_d 2 month @ ''-'' @ fmt_d 2 day @ [sep]
        @ fmt_d 2 (sod div 3600) @ '':'' @ fmt_d 2 (sod mod 3600 div 60) @ '':''
        @ fmt_d 2 (sod mod 60)
        @ (if us \<noteq> 0 then ''.'' @ fmt_d 6 us else [])
        @ ''+00:00'')"

definition replace_microsecond_0 :: "instant \<Rightarrow> instant" where
  "replace_microsecond_0 t = t - dt_microsecond t"

text \<open>
  \<^verbatim>\<open>now_iso()\<close>, as a function of its clock reading. Its \<^verbatim>\<open>except AttributeError\<close>
  branch is dead code on every Python that can load the module (\<^verbatim>\<open>timezone.utc\<close>
  exists since 3.2, the annotations need 3.10), here and in the other places that repeat
  the pattern.
\<close>

definition now_iso :: "instant \<Rightarrow> string" where
  "now_iso t = str_replace ''+00:00'' ''Z'' (isoformat (CHR ''T'') (replace_microsecond_0 t))"

text \<open>
  The adapter that \<^verbatim>\<open>sqlite3\<close> applies to a \<^verbatim>\<open>datetime\<close> bound as a parameter:
  \<^verbatim>\<open>val.isoformat(" ")\<close>.
\<close>

definition adapt_datetime :: "instant \<Rightarrow> string" where
  "adapt_datetime t = isoformat (CHR '' '') t"

text \<open>
  Seconds since the Unix epoch, \<^verbatim>\<open>int(datetime.now(timezone.utc).timestamp())\<close>;
  \<^verbatim>\<open>int\<close> truncates towards zero.
\<close>

definition unix_seconds :: "instant \<Rightarrow> int" where
  "unix_seconds t =
     (let us = t - 719162 * US_PER_DAY
      in if 0 \<le> us then us div 1000000 else - ((- us) div 1000000))"

text \<open>
  Durations. A Python \<^verbatim>\<open>float\<close> is idealised as a real number: the arithmetic below is
  exact where the machine rounds (it agrees with the machine for the default base 2 and
  for every whole base, as long as the result fits a \<^verbatim>\<open>datetime\<close>), and the values
  \<^verbatim>\<open>inf\<close> and \<^verbatim>\<open>nan\<close> do not exist. \<^verbatim>\<open>timedelta(seconds=x)\<close> rounds to the nearest
  microsecond, ties to even, and refuses more than 999999999 days; adding a duration to a
  \<^verbatim>\<open>datetime\<close> raises when the result leaves the years 1 to 9999. (Where the power
  itself exceeds the range of a \<^verbatim>\<open>float\<close>, Python raises \<^verbatim>\<open>OverflowError\<close> already
  there; here the same error comes one step later, from the duration.)
\<close>

definition py_round :: "real \<Rightarrow> int" where
  "py_round x =
     (let f = \<lfloor>x\<rfloor>; d = x - of_int f
      in if d < 1 / 2 then f else if 1 / 2 < d then f + 1 else if even f then f else f + 1)"

definition timedelta_seconds :: "real \<Rightarrow> py_error + int" where
  "timedelta_seconds x =
     (let us = py_round (x * 1000000)
      in if \<bar>us div US_PER_DAY\<bar> > 999999999 then Inl OverflowError else Inr us)"

definition dt_add :: "instant \<Rightarrow> int \<Rightarrow> py_error + instant" where
  "dt_add t delta =
     (let r = t + delta
      in if 0 < dt_ordinal r \<and> dt_ordinal r \<le> MAXORDINAL then Inr r else Inl OverflowError)"

subsection \<open>The jobs table\<close>

text \<open>
  The column \<^verbatim>\<open>state\<close> holds one of five literals, written only by the program. The
  three timestamp columns are declared \<^verbatim>\<open>TIMESTAMP WITH TIME ZONE\<close>, which gives them
  numeric affinity: a text bound to them is stored as a number when the whole of it,
  spaces at both ends apart, is a decimal literal (sign, digits, fraction, exponent), and
  as text otherwise. SQLite orders every number before every text, numbers by value and
  texts byte by byte. A row keeps the text Python bound; \<open>sql_value\<close> is the value SQLite
  stores for it, as a triple whose lexicographic order is SQLite's. (Numbers are exact
  here; SQLite holds them in 64 bits.)
\<close>

definition is_space :: "char \<Rightarrow> bool" where
  "is_space c \<longleftrightarrow> c \<in> set [CHR 0x20, CHR 0x09, CHR 0x0A, CHR 0x0B, CHR 0x0C, CHR 0x0D]"

definition is_digit :: "char \<Rightarrow> bool" where
  "is_digit c \<longleftrightarrow> c \<in> set ''0123456789''"

definition dec_value :: "string \<Rightarrow> nat" where
  "dec_value ds = foldl (\<lambda>a c. 10 * a + (of_char c - 48)) 0 ds"

definition take_sign :: "string \<Rightarrow> bool \<times> string" where
  "take_sign s =
     (case s of
        [] \<Rightarrow> (False, [])
      | c # r \<Rightarrow> if c = CHR ''-'' then (True, r) else if c = CHR ''+'' then (False, r) else (False, s))"

text \<open>
  What \<^verbatim>\<open>sqlite3AtoF\<close> accepts, and the value it reads: leading spaces, a sign, digits, a
  point and more digits, an exponent with its own sign and at least one digit, trailing
  spaces, and nothing else; at least one digit in the significand.
\<close>

definition sql_number :: "string \<Rightarrow> real option" where
  "sql_number s =
     (case take_sign (dropWhile is_space s) of (neg, s1) \<Rightarrow>
        let ip = takeWhile is_digit s1;
            s2 = dropWhile is_digit s1;
            point = (s2 \<noteq> [] \<and> hd s2 = CHR ''.'');
            fp = (if point then takeWhile is_digit (tl s2) else []);
            s3 = (if point then dropWhile is_digit (tl s2) else s2);
            significand = real (dec_value ip) + real (dec_value fp) / 10 ^ length fp;
            signed = (if neg then - significand else significand)
        in if ip = [] \<and> fp = [] then None
           else if s3 \<noteq> [] \<and> (hd s3 = CHR ''e'' \<or> hd s3 = CHR ''E'')
           then (case take_sign (tl s3) of (eneg, r1) \<Rightarrow>
                   let ed = takeWhile is_digit r1;
                       e = (if eneg then - int (dec_value ed) else int (dec_value ed))
                   in if ed \<noteq> [] \<and> list_all is_space (dropWhile is_digit r1)
                      then Some (signed * power_int 10 e) else None)
           else if list_all is_space s3 then Some signed else None)"

definition sql_value :: "string \<Rightarrow> nat \<times> real \<times> string" where
  "sql_value s = (case sql_number s of Some x \<Rightarrow> (0, x, []) | None \<Rightarrow> (1, 0, s))"

datatype job_state = Pending | Processing | Completed | Failed | Dead

record job =
  job_id :: string
  command :: string
  state :: job_state
  attempts :: int
  max_retries :: int
  created_at :: string
  updated_at :: string
  due_at :: string
  last_error :: "string option"
  job_output :: "codepoints option"
  priority :: int
  picked_by :: "string option"

text \<open>\<^verbatim>\<open>UPDATE jobs SET ... WHERE cond\<close> and the rows its \<^verbatim>\<open>RETURNING\<close> clause yields.\<close>

definition sql_update :: "(job \<Rightarrow> bool) \<Rightarrow> (job \<Rightarrow> job) \<Rightarrow> job list \<Rightarrow> job list" where
  "sql_update cond upd rows = map (\<lambda>r. if cond r then upd r else r) rows"

definition sql_returning :: "(job \<Rightarrow> bool) \<Rightarrow> (job \<Rightarrow> job) \<Rightarrow> job list \<Rightarrow> job list" where
  "sql_returning cond upd rows = map upd (filter cond rows)"

subsection \<open>Enqueue\<close>

text \<open>
  The request is the object \<^verbatim>\<open>json.loads\<close> returned, with the values \<^verbatim>\<open>int()\<close> accepts
  already converted; \<open>None\<close> is a missing key. The function reads the clock twice, once
  for the generated id and once for \<^verbatim>\<open>created\<close>. The primary key turns a second insert
  of an id into \<^verbatim>\<open>IntegrityError\<close>, which the code turns into \<^verbatim>\<open>sys.exit\<close>.

  Every operation that can fail returns the error, if any, and the table it leaves: an
  exception inside \<^verbatim>\<open>with conn:\<close> rolls the transaction back.
\<close>

record job_request =
  req_id :: "string option"
  req_command :: "string option"
  req_run_at :: "string option"
  req_max_retries :: "int option"
  req_priority :: "int option"

definition or_else :: "string option \<Rightarrow> string \<Rightarrow> string" where
  "or_else v dflt = (case v of None \<Rightarrow> dflt | Some s \<Rightarrow> if s = [] then dflt else s)"

definition enqueue_job ::
  "int \<Rightarrow> instant \<Rightarrow> instant \<Rightarrow> job_request \<Rightarrow> job list \<Rightarrow> py_error option \<times> job list" where
  "enqueue_job cfg_max_retries t_ts t_created req s =
     (case req_command req of
        None \<Rightarrow> (Some (SystemExit ''Job must include 'command'.''), s)
      | Some cmd \<Rightarrow>
          let now_ts = unix_seconds t_ts;
              jid = or_else (req_id req) (''job-'' @ str_int now_ts);
              created = now_iso t_created;
              row = \<lparr> job_id = jid, command = cmd, state = Pending, attempts = 0,
                      max_retries = (case req_max_retries req of None \<Rightarrow> cfg_max_retries | Some m \<Rightarrow> m),
                      created_at = created, updated_at = created,
                      due_at = or_else (req_run_at req) created,
                      last_error = None, job_output = None,
                      priority = (case req_priority req of None \<Rightarrow> 0 | Some p \<Rightarrow> p),
                      picked_by = None \<rparr>
          in if jid \<in> set (map job_id s)
             then (Some (SystemExit (''Job with id '' @ [CHR 0x27] @ jid @ [CHR 0x27] @ '' already exists.'')), s)
             else (None, s @ [row]))"

subsection \<open>Claim\<close>

text \<open>
  \<^verbatim>\<open>pick_next_job\<close>. The \<^verbatim>\<open>WHERE\<close> clause compares the stored \<open>due_at\<close> with the bound text
  \<open>now\<close> as SQLite compares values. \<^verbatim>\<open>ORDER BY ... LIMIT 1\<close> yields one of the eligible
  rows whose ordering key is least; among several such rows SQLite promises nothing (the
  row it yields depends on how it walks the index), so the choice among them is an
  argument, \<open>tie\<close>, and every statement below holds for every value of it. The
  \<^verbatim>\<open>UPDATE ... RETURNING\<close> follows with its own guard. The function returns the dictionary
  and the table.
\<close>

definition eligible :: "string \<Rightarrow> job \<Rightarrow> bool" where
  "eligible now r \<longleftrightarrow> state r \<in> {Pending, Failed} \<and> sql_value (due_at r) \<le> sql_value now"

definition order_key :: "job \<Rightarrow> int \<times> (nat \<times> real \<times> string) \<times> (nat \<times> real \<times> string)" where
  "order_key r = (- priority r, sql_value (due_at r), sql_value (created_at r))"

definition select_limit_1 :: "nat \<Rightarrow> string \<Rightarrow> job list \<Rightarrow> job option" where
  "select_limit_1 tie now s =
     (let rows = filter (eligible now) s;
          least = filter (\<lambda>j. list_all (\<lambda>k. order_key j \<le> order_key k) rows) rows
      in if least = [] then None else Some (least ! (tie mod length least)))"

record picked =
  p_id :: string
  p_command :: string
  p_attempts :: int
  p_max_retries :: int
  p_state :: job_state
  p_last_error :: "string option"

definition returning_row :: "job \<Rightarrow> picked" where
  "returning_row r =
     \<lparr> p_id = job_id r, p_command = command r, p_attempts = attempts r,
       p_max_retries = max_retries r, p_state = state r, p_last_error = last_error r \<rparr>"

definition claim_update :: "string \<Rightarrow> string \<Rightarrow> job \<Rightarrow> job" where
  "claim_update worker_id now r = r\<lparr>state := Processing, picked_by := Some worker_id, updated_at := now\<rparr>"

definition pick_next_job ::
  "string \<Rightarrow> instant \<Rightarrow> nat \<Rightarrow> job list \<Rightarrow> picked option \<times> job list" where
  "pick_next_job worker_id t tie s =
     (let now = now_iso t in
      case select_limit_1 tie now s of
        None \<Rightarrow> (None, s)
      | Some j \<Rightarrow>
          let guard = (\<lambda>r. job_id r = job_id j \<and> state r \<in> {Pending, Failed})
          in (case sql_returning guard (claim_update worker_id now) s of
                [] \<Rightarrow> None
              | res # _ \<Rightarrow> Some (returning_row res),
              sql_update guard (claim_update worker_id now) s))"

subsection \<open>Execute and commit\<close>

text \<open>
  \<^verbatim>\<open>execute_job\<close> as a function of what \<^verbatim>\<open>subprocess.run\<close> did: the command exited
  with a return code and two captured streams, the timeout expired, or another exception
  was raised, with its message.
\<close>

datatype proc_outcome =
  Exited int codepoints codepoints
  | TimeoutExpired
  | Raised string

definition execute_job :: "proc_outcome \<Rightarrow> int \<Rightarrow> bool \<times> codepoints \<times> string option" where
  "execute_job outcome timeout =
     (case outcome of
        Exited returncode out err \<Rightarrow>
          (returncode = 0, out @ err,
           if returncode = 0 then None
           else Some (''Command failed with exit code '' @ str_int returncode))
      | TimeoutExpired \<Rightarrow> (False, [], Some (''Job timed out after '' @ str_int timeout @ '' seconds''))
      | Raised msg \<Rightarrow> (False, [], Some msg))"

definition calculate_backoff_delay :: "int \<Rightarrow> real \<Rightarrow> py_error + real" where
  "calculate_backoff_delay n base =
     (if base = 0 \<and> n < 0 then Inl ZeroDivisionError else Inr (power_int base n))"

text \<open>
  The transaction that ends one turn of the loop in \<^verbatim>\<open>process_job\<close>. \<open>t_now\<close> is the
  reading of \<^verbatim>\<open>now = now_iso()\<close> after the command has run. In the retry branch the
  code binds \<^verbatim>\<open>now\<close> again, to the \<^verbatim>\<open>datetime\<close> of a second reading \<open>t_retry\<close>, and passes
  that object for \<^verbatim>\<open>updated_at\<close>. An exception leaves the transaction before its
  \<^verbatim>\<open>UPDATE\<close>, so the table is as it was (the job still claimed), and ends the worker.
\<close>

definition process_job_commit ::
  "real \<Rightarrow> instant \<Rightarrow> instant \<Rightarrow> picked \<Rightarrow> bool \<times> codepoints \<times> string option \<Rightarrow> job list
   \<Rightarrow> py_error option \<times> job list" where
  "process_job_commit backoff_base t_now t_retry jb res s =
     (case res of (success, out, error) \<Rightarrow>
        let now = now_iso t_now; this = (\<lambda>r. job_id r = p_id jb) in
        if success
        then (None, sql_update this
                    (\<lambda>r. r\<lparr>state := Completed, attempts := attempts r + 1, updated_at := now,
                            job_output := Some (take 10000 out), last_error := None,
                            picked_by := None\<rparr>) s)
        else
          let new_attempts = p_attempts jb + 1 in
          if new_attempts > p_max_retries jb
          then (None, sql_update this
                      (\<lambda>r. r\<lparr>state := Dead, attempts := new_attempts, updated_at := now,
                              last_error := error, picked_by := None\<rparr>) s)
          else
            (case calculate_backoff_delay new_attempts backoff_base of
               Inl e \<Rightarrow> (Some e, s)
             | Inr delay_seconds \<Rightarrow>
                 (case timedelta_seconds delay_seconds of
                    Inl e \<Rightarrow> (Some e, s)
                  | Inr delta \<Rightarrow>
                      (case dt_add t_retry delta of
                         Inl e \<Rightarrow> (Some e, s)
                       | Inr due \<Rightarrow>
                           (None, sql_update this
                                  (\<lambda>r. r\<lparr>state := Failed, attempts := new_attempts,
                                          updated_at := adapt_datetime t_retry,
                                          due_at := str_replace ''+00:00'' ''Z'' (isoformat (CHR ''T'') due),
                                          last_error := error, picked_by := None\<rparr>) s)))))"

subsection \<open>Dead-letter queue\<close>

text \<open>
  \<^verbatim>\<open>dlq_retry\<close> evaluates \<^verbatim>\<open>now_iso()\<close> twice while it builds the parameters, first for
  \<^verbatim>\<open>due_at\<close>, then for \<^verbatim>\<open>updated_at\<close>.
\<close>

definition dlq_retry :: "string \<Rightarrow> instant \<Rightarrow> instant \<Rightarrow> job list \<Rightarrow> py_error option \<times> job list" where
  "dlq_retry jid t_due t_upd s =
     (let guard = (\<lambda>r. job_id r = jid \<and> state r = Dead);
          upd = (\<lambda>r. r\<lparr>state := Pending, attempts := 0, due_at := now_iso t_due,
                        updated_at := now_iso t_upd, last_error := None, picked_by := None\<rparr>)
      in case sql_returning guard upd s of
           [] \<Rightarrow> (Some (SystemExit (''Job '' @ [CHR 0x27] @ jid @ [CHR 0x27] @ '' not found in DLQ'')), s)
         | _ # _ \<Rightarrow> (None, sql_update guard upd s))"

subsection \<open>Vocabulary of the specification\<close>

text \<open>The canonical form \<^verbatim>\<open>YYYY-MM-DDTHH:MM:SSZ\<close>; a \<open>d\<close> of the pattern stands for a digit.\<close>

definition canonical :: "string \<Rightarrow> bool" where
  "canonical ts \<longleftrightarrow>
     list_all2 (\<lambda>p c. if p = CHR ''d'' then c \<in> set ''0123456789'' else c = p)
       ''dddd-dd-ddTdd:dd:ddZ'' ts"

text \<open>The instants a \<^verbatim>\<open>datetime\<close> can hold: the years 1 to 9999.\<close>

definition valid_instant :: "instant \<Rightarrow> bool" where
  "valid_instant t \<longleftrightarrow> 0 \<le> t \<and> t < MAXORDINAL * US_PER_DAY"

text \<open>Invariant I1 of the specification, on one table.\<close>

definition exclusive_claim :: "job list \<Rightarrow> bool" where
  "exclusive_claim s \<longleftrightarrow> (\<forall>r\<in>set s. state r = Processing \<longleftrightarrow> picked_by r \<noteq> None)"

text \<open>
  The tables that enqueue, claim, result-commit and DLQ retry can produce from the empty
  table, in any order and with any arguments. A commit may come with any dictionary; a
  failed operation leaves the table it found.
\<close>

inductive reachable :: "job list \<Rightarrow> bool" where
  empty: "reachable []"
| enqueue: "reachable s \<Longrightarrow> reachable (snd (enqueue_job m t_ts t_created req s))"
| claim: "reachable s \<Longrightarrow> reachable (snd (pick_next_job w t tie s))"
| commit: "reachable s \<Longrightarrow> reachable (snd (process_job_commit base t_now t_retry jb res s))"
| retry: "reachable s \<Longrightarrow> reachable (snd (dlq_retry jid t_due t_upd s))"

text \<open>
  A run of worker loops in which every turn claims the job \<open>jid\<close>, the command fails and
  the commit goes through: one element of the list for each execution, with the worker,
  the three clock readings of the turn, the choice SQLite makes among equal keys and what
  the subprocess did. The result is the
  table after the last execution, or \<open>None\<close> when the list is not such a run.
\<close>

fun fail_run ::
  "real \<Rightarrow> int \<Rightarrow> string \<Rightarrow> (string \<times> instant \<times> nat \<times> proc_outcome \<times> instant \<times> instant) list
   \<Rightarrow> job list \<Rightarrow> job list option" where
  "fail_run base timeout jid [] s = Some s"
| "fail_run base timeout jid ((w, t_pick, tie, outcome, t_now, t_retry) # rest) s =
     (case pick_next_job w t_pick tie s of
        (None, _) \<Rightarrow> None
      | (Some jb, s1) \<Rightarrow>
          let res = execute_job outcome timeout in
          if p_id jb = jid \<and> \<not> fst res
          then (case process_job_commit base t_now t_retry jb res s1 of
                  (Some e, _) \<Rightarrow> None
                | (None, s2) \<Rightarrow> fail_run base timeout jid rest s2)
          else None)"

subsection \<open>Sample data\<close>

definition demo_job :: "string \<Rightarrow> int \<Rightarrow> string \<Rightarrow> job" where
  "demo_job i p due =
     \<lparr> job_id = i, command = ''exit 1'', state = Pending, attempts = 0, max_retries = 1,
       created_at = ''2025-01-01T00:00:00Z'', updated_at = ''2025-01-01T00:00:00Z'',
       due_at = due, last_error = None, job_output = None, priority = p, picked_by = None \<rparr>"

definition demo_table :: "job list" where
  "demo_table =
     [demo_job ''a'' 0 ''2025-01-01T00:00:00Z'',
      demo_job ''b'' 5 ''2025-01-01T00:00:00Z'',
      demo_job ''c'' 9 ''2025-01-02T00:00:00Z'']"

text \<open>The job \<open>a\<close> as a worker holds it after \<open>n\<close> attempts, and a job in the dead-letter queue.\<close>

definition demo_claimed :: "int \<Rightarrow> job" where
  "demo_claimed n =
     (demo_job ''a'' 0 ''2025-01-01T00:00:00Z'')
       \<lparr>state := Processing, attempts := n, picked_by := Some ''w1''\<rparr>"

definition demo_dead :: job where
  "demo_dead =
     (demo_job ''j5'' 0 ''2025-01-01T00:00:00Z'')
       \<lparr>state := Dead, attempts := 2, last_error := Some ''Command failed with exit code 1''\<rparr>"

text \<open>
  Two failing executions of \<open>a\<close>, the first at 2025-01-01T00:00:00.25 and the second
  three seconds after midnight, both with exit code 1.
\<close>

definition demo_run ::
  "(string \<times> instant \<times> nat \<times> proc_outcome \<times> instant \<times> instant) list" where
  "demo_run =
     [(''w1'', 63871286400250000, 0, Exited 1 [] [], 63871286400250000, 63871286400250000),
      (''w2'', 63871286403000000, 0, Exited 1 [] [], 63871286403000000, 63871286403000000)]"

text \<open>The request \<^verbatim>\<open>{"id": "j1", "command": "echo ok"}\<close>.\<close>

definition demo_request :: job_request where
  "demo_request =
     \<lparr> req_id = Some ''j1'', req_command = Some ''echo ok'', req_run_at = None,
       req_max_retries = None, req_priority = None \<rparr>"

section \<open>Properties\<close>

subsection \<open>Evaluation at sample inputs\<close>

lemmas digits_numeral =
  digits.simps [of "numeral k"] digits.simps [of 0] digits.simps [of "Suc 0"] for k

lemmas clock_eval =
  now_iso_def adapt_datetime_def isoformat_def replace_microsecond_0_def dt_microsecond_def
  dt_second_of_day_def dt_ordinal_def US_PER_DAY_def MAXORDINAL_def ord2ymd_def ymd_of_counts_def
  DAYS_BEFORE_MONTH_def DAYS_IN_MONTH_def fmt_d_def digits_numeral startswith_def Let_def

lemmas sql_eval = sql_value_def sql_number_def take_sign_def is_space_def is_digit_def
  dec_value_def

text \<open>
  A text that begins with four digits and a dash, as every text the clock functions
  produce, is not a number: SQLite stores it as text.
\<close>

lemma sql_value_dated:
  assumes "is_digit a" "is_digit b" "is_digit c" "is_digit d"
  shows "sql_value (a # b # c # d # CHR ''-'' # r) = (1, 0, a # b # c # d # CHR ''-'' # r)"
proof -
  from assms(1) have a: "\<not> is_space a" "a \<noteq> CHR ''-''" "a \<noteq> CHR ''+''"
    by (auto simp: is_digit_def is_space_def)
  have m: "\<not> is_digit (CHR ''-'')" "\<not> is_space (CHR ''-'')"
    by (simp_all add: is_digit_def is_space_def)
  from a have "take_sign (dropWhile is_space (a # b # c # d # CHR ''-'' # r))
      = (False, a # b # c # d # CHR ''-'' # r)"
    by (simp add: take_sign_def)
  moreover from assms m have "takeWhile is_digit (a # b # c # d # CHR ''-'' # r) = [a, b, c, d]"
    "dropWhile is_digit (a # b # c # d # CHR ''-'' # r) = CHR ''-'' # r"
    by simp_all
  ultimately have "sql_number (a # b # c # d # CHR ''-'' # r) = None"
    using m by (simp add: sql_number_def Let_def)
  then show ?thesis by (simp add: sql_value_def)
qed

lemmas op_eval = pick_next_job_def eligible_def order_key_def sql_returning_def sql_update_def
  select_limit_1_def sql_value_dated is_digit_def claim_update_def returning_row_def
  demo_job_def demo_claimed_def demo_dead_def demo_request_def Let_def

lemmas commit_eval = execute_job_def str_int_def process_job_commit_def
  calculate_backoff_delay_def timedelta_seconds_def py_round_def dt_add_def dlq_retry_def
  enqueue_job_def or_else_def unix_seconds_def

lemma now_iso_sample: "now_iso 63871286400250000 = ''2025-01-01T00:00:00Z''"
  by (simp add: clock_eval)

subsection \<open>Rows and their primary key\<close>

lemma key_unique:
  "distinct (map f xs) \<Longrightarrow> x \<in> set xs \<Longrightarrow> y \<in> set xs \<Longrightarrow> f x = f y \<Longrightarrow> x = y"
  by (meson distinct_map inj_onD)

lemma filter_key_singleton:
  "distinct (map f xs) \<Longrightarrow> j \<in> set xs \<Longrightarrow> P j \<Longrightarrow> filter (\<lambda>r. f r = f j \<and> P r) xs = [j]"
proof (induction xs)
  case Nil
  then show ?case by simp
next
  case (Cons a xs)
  show ?case
  proof (cases "a = j")
    case True
    with Cons.prems have "f j \<notin> f ` set xs" by simp
    then have "\<forall>r\<in>set xs. f r \<noteq> f j" by (metis image_eqI)
    then have "filter (\<lambda>r. f r = f j \<and> P r) xs = []"
      by (simp add: filter_empty_conv)
    with True Cons.prems show ?thesis by simp
  next
    case False
    with Cons.prems have j: "j \<in> set xs" and d: "distinct (map f xs)" and n: "f a \<noteq> f j"
      by auto
    from Cons.IH [OF d j Cons.prems(3)] n show ?thesis by simp
  qed
qed

lemma sql_update_one:
  assumes "distinct (map job_id s)" "j \<in> set s" "P j"
  shows "sql_update (\<lambda>r. job_id r = job_id j \<and> P r) upd s = map (\<lambda>r. if r = j then upd j else r) s"
  unfolding sql_update_def
proof (rule map_cong [OF refl])
  fix r assume "r \<in> set s"
  with assms show "(if job_id r = job_id j \<and> P r then upd r else r) = (if r = j then upd j else r)"
    using key_unique [of job_id s r j] by auto
qed

lemma least_row_exists:
  fixes f :: "'a \<Rightarrow> 'b::linorder"
  assumes "rows \<noteq> []"
  shows "filter (\<lambda>j. list_all (\<lambda>k. f j \<le> f k) rows) rows \<noteq> []"
proof -
  let ?m = "arg_min_list f rows"
  from assms have "?m \<in> set rows" by (rule arg_min_list_in)
  moreover from assms have "\<forall>k\<in>set rows. f ?m \<le> f k"
    by (simp add: f_arg_min_list_f)
  ultimately show ?thesis
    by (auto simp: filter_empty_conv list_all_iff)
qed

lemma select_limit_1_None:
  assumes "select_limit_1 tie now s = None"
  shows "\<forall>k\<in>set s. \<not> eligible now k"
proof -
  from assms have "filter (\<lambda>j. list_all (\<lambda>k. order_key j \<le> order_key k) (filter (eligible now) s))
      (filter (eligible now) s) = []"
    by (simp add: select_limit_1_def Let_def split: if_splits)
  with least_row_exists [of "filter (eligible now) s" order_key]
  have "filter (eligible now) s = []" by blast
  then show ?thesis by (simp add: filter_empty_conv)
qed

lemma select_limit_1_Some:
  assumes "select_limit_1 tie now s = Some j"
  shows "j \<in> set s \<and> eligible now j \<and> (\<forall>k\<in>set s. eligible now k \<longrightarrow> order_key j \<le> order_key k)"
proof -
  let ?rows = "filter (eligible now) s"
  let ?least = "filter (\<lambda>j. list_all (\<lambda>k. order_key j \<le> order_key k) ?rows) ?rows"
  from assms have ne: "?least \<noteq> []" and j: "j = ?least ! (tie mod length ?least)"
    by (simp_all add: select_limit_1_def Let_def split: if_splits)
  from ne have "tie mod length ?least < length ?least" by simp
  with j have "j \<in> set ?least" by (metis nth_mem)
  then show ?thesis by (auto simp: list_all_iff)
qed

subsection \<open>Claim\<close>

text \<open>
  What \<^verbatim>\<open>pick_next_job\<close> does on a table with distinct ids (the primary key), whatever
  SQLite chooses among equal keys. Either it returns the dictionary of a row \<open>j\<close> that is
  eligible at \<open>now\<close>, and no eligible row \<open>k\<close> comes before \<open>j\<close>: \<open>k\<close> has no higher priority
  and, at equal priority, no earlier stored \<open>due_at\<close> and, when that is equal too, no
  earlier stored \<open>created_at\<close>; the table is then the old one with \<open>j\<close> alone changed, to
  state processing, \<open>picked_by\<close> the worker and \<open>updated_at = now\<close>. Or no row is eligible,
  nothing is returned and the table is unchanged.
\<close>

lemma pick_next_job_result:
  assumes pk: "distinct (map job_id s)"
  shows "(\<exists>j\<in>set s.
            state j \<in> {Pending, Failed} \<and> sql_value (due_at j) \<le> sql_value (now_iso t)
          \<and> (\<forall>k\<in>set s. state k \<in> {Pending, Failed} \<and> sql_value (due_at k) \<le> sql_value (now_iso t) \<longrightarrow>
                priority k < priority j
              \<or> (priority k = priority j
                  \<and> (sql_value (due_at j) < sql_value (due_at k)
                      \<or> (sql_value (due_at j) = sql_value (due_at k)
                          \<and> sql_value (created_at j) \<le> sql_value (created_at k)))))
          \<and> pick_next_job w t tie s =
              (Some (returning_row (j\<lparr>state := Processing, picked_by := Some w, updated_at := now_iso t\<rparr>)),
               map (\<lambda>r. if r = j then j\<lparr>state := Processing, picked_by := Some w, updated_at := now_iso t\<rparr> else r) s))
       \<or> ((\<forall>k\<in>set s. \<not> (state k \<in> {Pending, Failed} \<and> sql_value (due_at k) \<le> sql_value (now_iso t)))
          \<and> pick_next_job w t tie s = (None, s))"
proof (cases "select_limit_1 tie (now_iso t) s")
  case None
  from select_limit_1_None [OF None]
  have "\<forall>k\<in>set s. \<not> (state k \<in> {Pending, Failed} \<and> sql_value (due_at k) \<le> sql_value (now_iso t))"
    by (simp add: eligible_def)
  moreover from None have "pick_next_job w t tie s = (None, s)"
    by (simp add: pick_next_job_def)
  ultimately show ?thesis by blast
next
  case (Some j)
  let ?now = "now_iso t"
  let ?g = "\<lambda>r. state r \<in> {Pending, Failed}"
  from select_limit_1_Some [OF Some]
  have j: "j \<in> set s" and e: "eligible ?now j"
    and least: "\<forall>k\<in>set s. eligible ?now k \<longrightarrow> order_key j \<le> order_key k"
    by auto
  from e have g: "?g j" and due: "sql_value (due_at j) \<le> sql_value ?now"
    by (auto simp: eligible_def)
  have key: "priority k < priority j
              \<or> (priority k = priority j
                  \<and> (sql_value (due_at j) < sql_value (due_at k)
                      \<or> (sql_value (due_at j) = sql_value (due_at k)
                          \<and> sql_value (created_at j) \<le> sql_value (created_at k))))"
    if "k \<in> set s" "state k \<in> {Pending, Failed} \<and> sql_value (due_at k) \<le> sql_value ?now" for k
  proof -
    from that least have "order_key j \<le> order_key k" by (simp add: eligible_def)
    then show ?thesis
      unfolding order_key_def less_eq_prod_simp by auto
  qed
  have f: "filter (\<lambda>r. job_id r = job_id j \<and> ?g r) s = [j]"
    using filter_key_singleton [of job_id s j ?g] pk j g by simp
  have u: "sql_update (\<lambda>r. job_id r = job_id j \<and> ?g r) (claim_update w ?now) s
           = map (\<lambda>r. if r = j then claim_update w ?now j else r) s"
    using sql_update_one [of s j ?g] pk j g by simp
  have "pick_next_job w t tie s =
          (Some (returning_row (claim_update w ?now j)),
           map (\<lambda>r. if r = j then claim_update w ?now j else r) s)"
    using Some f u by (simp add: pick_next_job_def sql_returning_def Let_def)
  with j g due key show ?thesis
    unfolding claim_update_def by blast
qed

text \<open>
  At the sample table, read at 2025-01-01T00:00:00.25: \<open>b\<close> has the highest priority among
  the rows that are due, \<open>c\<close> is due a day later.
\<close>

lemma pick_next_job_sample:
  "pick_next_job ''w1'' 63871286400250000 tie demo_table =
     (Some \<lparr>p_id = ''b'', p_command = ''exit 1'', p_attempts = 0, p_max_retries = 1,
            p_state = Processing, p_last_error = None\<rparr>,
      [demo_job ''a'' 0 ''2025-01-01T00:00:00Z'',
       (demo_job ''b'' 5 ''2025-01-01T00:00:00Z'')
         \<lparr>state := Processing, picked_by := Some ''w1'', updated_at := ''2025-01-01T00:00:00Z''\<rparr>,
       demo_job ''c'' 9 ''2025-01-02T00:00:00Z''])"
  by (simp add: op_eval now_iso_sample demo_table_def)

text \<open>
  C1. The specification has the claim return only jobs that are eligible and never one whose
  \<open>due_at\<close> is in the future. The rest of the contract is the lemma above; the last part
  fails on the rows that the retry branch of the commit writes. A job that fails at
  2025-01-01T00:00:00.999999 with base 2 gets \<open>due_at\<close> two seconds later, written with its
  microseconds; that text sorts before the canonical text of the same second (\<open>.\<close> is below
  \<open>Z\<close>), so a worker that reads the clock at 00:00:02.000000 finds the job eligible, ahead
  of the due job \<open>c\<close> of lower priority (\<open>b\<close>, of higher priority, is due at 00:00:05 and is
  passed over), and is handed it 0.999999 seconds before the instant its \<open>due_at\<close> denotes.
\<close>

theorem claim_returns_job_before_due:
  "process_job_commit 2 63871286400999999 63871286400999999 (returning_row (demo_claimed 0))
     (False, [], Some ''Command failed with exit code 1'')
     [demo_job ''c'' (- 3) ''2025-01-01T00:00:00Z'', demo_claimed 0,
      demo_job ''b'' 9 ''2025-01-01T00:00:05Z'']
   = (None,
      [demo_job ''c'' (- 3) ''2025-01-01T00:00:00Z'',
       \<lparr> job_id = ''a'', command = ''exit 1'', state = Failed, attempts = 1, max_retries = 1,
          created_at = ''2025-01-01T00:00:00Z'', updated_at = ''2025-01-01 00:00:00.999999+00:00'',
          due_at = ''2025-01-01T00:00:02.999999Z'',
          last_error = Some ''Command failed with exit code 1'', job_output = None,
          priority = 0, picked_by = None \<rparr>,
       demo_job ''b'' 9 ''2025-01-01T00:00:05Z''])
   \<and> str_replace ''+00:00'' ''Z'' (isoformat (CHR ''T'') 63871286402999999)
       = ''2025-01-01T00:00:02.999999Z''
   \<and> now_iso 63871286402000000 = ''2025-01-01T00:00:02Z''
   \<and> (63871286402000000 :: instant) < 63871286402999999
   \<and> fst (pick_next_job ''w2'' 63871286402000000 tie
        [demo_job ''c'' (- 3) ''2025-01-01T00:00:00Z'',
         \<lparr> job_id = ''a'', command = ''exit 1'', state = Failed, attempts = 1, max_retries = 1,
            created_at = ''2025-01-01T00:00:00Z'', updated_at = ''2025-01-01 00:00:00.999999+00:00'',
            due_at = ''2025-01-01T00:00:02.999999Z'',
            last_error = Some ''Command failed with exit code 1'', job_output = None,
            priority = 0, picked_by = None \<rparr>,
         demo_job ''b'' 9 ''2025-01-01T00:00:05Z''])
       = Some \<lparr>p_id = ''a'', p_command = ''exit 1'', p_attempts = 1, p_max_retries = 1,
               p_state = Processing, p_last_error = Some ''Command failed with exit code 1''\<rparr>"
  by (simp add: op_eval commit_eval clock_eval)

text \<open>
  The store's order at work on a \<^verbatim>\<open>run_at\<close> that reads as a number: SQLite stores
  \<^verbatim>\<open>20300101\<close> as an integer, every integer is below every text, and the job is eligible
  as soon as it is enqueued.
\<close>

lemma numeric_run_at_sample:
  "fst (pick_next_job ''w1'' 63871286400250000 tie
          (snd (enqueue_job 3 63871286400250000 63871286400250000
                  (demo_request\<lparr>req_run_at := Some ''20300101''\<rparr>) [])))
   = Some \<lparr>p_id = ''j1'', p_command = ''echo ok'', p_attempts = 0, p_max_retries = 3,
           p_state = Processing, p_last_error = None\<rparr>"
  by (simp add: op_eval commit_eval sql_eval now_iso_sample)

subsection \<open>Result commit\<close>

lemma sql_update_key:
  assumes "distinct (map job_id s)" "j \<in> set s"
  shows "sql_update (\<lambda>r. job_id r = job_id j) upd s = map (\<lambda>r. if r = j then upd j else r) s"
  using sql_update_one [of s j "\<lambda>_. True" upd] assms by simp

lemma replace_row_keeps_key:
  assumes "distinct (map job_id s)" "j \<in> set s" "job_id j' = job_id j"
  shows "distinct (map job_id (map (\<lambda>r. if r = j then j' else r) s))"
    and "j' \<in> set (map (\<lambda>r. if r = j then j' else r) s)"
proof -
  have "map job_id (map (\<lambda>r. if r = j then j' else r) s) = map job_id s"
    using assms(3) by (induction s) auto
  with assms(1) show "distinct (map job_id (map (\<lambda>r. if r = j then j' else r) s))"
    by (simp only:)
  from assms(2) show "j' \<in> set (map (\<lambda>r. if r = j then j' else r) s)" by force
qed

lemma commit_success_row:
  assumes "distinct (map job_id s)" "j \<in> set s" "p_id jb = job_id j"
  shows "process_job_commit base t_now t_retry jb (True, out, err) s =
           (None, map (\<lambda>r. if r = j
                            then j\<lparr>state := Completed, attempts := attempts j + 1,
                                    updated_at := now_iso t_now,
                                    job_output := Some (take 10000 out),
                                    last_error := None, picked_by := None\<rparr>
                            else r) s)"
  using sql_update_key [OF assms(1,2)] assms(3)
  by (simp add: process_job_commit_def Let_def)

lemma commit_dead_row:
  assumes "distinct (map job_id s)" "j \<in> set s" "p_id jb = job_id j"
    and "p_attempts jb + 1 > p_max_retries jb"
  shows "process_job_commit base t_now t_retry jb (False, out, err) s =
           (None, map (\<lambda>r. if r = j
                            then j\<lparr>state := Dead, attempts := p_attempts jb + 1,
                                    updated_at := now_iso t_now,
                                    last_error := err, picked_by := None\<rparr>
                            else r) s)"
  using sql_update_key [OF assms(1,2)] assms(3,4)
  by (simp add: process_job_commit_def Let_def)

lemma commit_retry_row:
  assumes "distinct (map job_id s)" "j \<in> set s" "p_id jb = job_id j"
    and "\<not> p_attempts jb + 1 > p_max_retries jb"
    and "calculate_backoff_delay (p_attempts jb + 1) base = Inr d"
    and "timedelta_seconds d = Inr delta"
    and "dt_add t_retry delta = Inr due"
  shows "process_job_commit base t_now t_retry jb (False, out, err) s =
           (None, map (\<lambda>r. if r = j
                            then j\<lparr>state := Failed, attempts := p_attempts jb + 1,
                                    updated_at := adapt_datetime t_retry,
                                    due_at := str_replace ''+00:00'' ''Z'' (isoformat (CHR ''T'') due),
                                    last_error := err, picked_by := None\<rparr>
                            else r) s)"
  using sql_update_key [OF assms(1,2)] assms(3-)
  by (simp add: process_job_commit_def Let_def)

lemma commit_retry_raises:
  assumes "\<not> p_attempts jb + 1 > p_max_retries jb"
    and "fst (process_job_commit base t_now t_retry jb (False, out, err) s) = None"
  shows "\<exists>d delta due. calculate_backoff_delay (p_attempts jb + 1) base = Inr d
           \<and> timedelta_seconds d = Inr delta \<and> dt_add t_retry delta = Inr due"
  using assms
  by (auto simp: process_job_commit_def Let_def split: sum.splits)


lemma pick_of_job:
  assumes pk: "distinct (map job_id s)" and j: "j \<in> set s"
    and p: "pick_next_job w t tie s = (Some jb, s1)" and i: "p_id jb = job_id j"
  shows "state j \<in> {Pending, Failed}
       \<and> jb = returning_row (claim_update w (now_iso t) j)
       \<and> s1 = map (\<lambda>r. if r = j then claim_update w (now_iso t) j else r) s"
proof -
  from pick_next_job_result [OF pk, of t w tie] p
  obtain j0 where j0: "j0 \<in> set s" "state j0 \<in> {Pending, Failed}"
    and jb: "jb = returning_row (claim_update w (now_iso t) j0)"
    and s1: "s1 = map (\<lambda>r. if r = j0 then claim_update w (now_iso t) j0 else r) s"
    unfolding claim_update_def by auto
  from jb i have "job_id j0 = job_id j"
    by (simp add: returning_row_def claim_update_def)
  with pk j j0(1) have "j0 = j" by (metis key_unique)
  with j0 jb s1 show ?thesis by simp
qed

lemma fail_run_step:
  assumes pk: "distinct (map job_id s)" and j: "j \<in> set s"
    and run: "fail_run base timeout (job_id j) (x # xs) s = Some s'"
  shows "state j \<in> {Pending, Failed}
       \<and> (\<exists>s2 j2. distinct (map job_id s2) \<and> j2 \<in> set s2 \<and> job_id j2 = job_id j
              \<and> max_retries j2 = max_retries j \<and> attempts j2 = attempts j + 1
              \<and> state j2 = (if attempts j + 1 > max_retries j then Dead else Failed)
              \<and> fail_run base timeout (job_id j) xs s2 = Some s')"
proof -
  obtain w t_pick tie outcome t_now t_retry
    where x: "x = (w, t_pick, tie, outcome, t_now, t_retry)"
    by (cases x) auto
  from run x obtain jb s1 where p: "pick_next_job w t_pick tie s = (Some jb, s1)"
    by (auto split: prod.splits option.splits)
  obtain ok out err where res: "execute_job outcome timeout = (ok, out, err)"
    by (cases "execute_job outcome timeout") auto
  from run x p res have i: "p_id jb = job_id j" and nok: "\<not> ok"
    by (auto simp: Let_def split: if_splits)
  let ?cj = "claim_update w (now_iso t_pick) j"
  from pick_of_job [OF pk j p i]
  have st: "state j \<in> {Pending, Failed}" and jb: "jb = returning_row ?cj"
    and s1: "s1 = map (\<lambda>r. if r = j then ?cj else r) s"
    by auto
  have cid: "job_id ?cj = job_id j" by (simp add: claim_update_def)
  from replace_row_keeps_key [OF pk j cid] s1
  have pk1: "distinct (map job_id s1)" and cj: "?cj \<in> set s1" by auto
  have pid: "p_id jb = job_id ?cj" and pa: "p_attempts jb = attempts j"
    and pm: "p_max_retries jb = max_retries j"
    using jb by (simp_all add: returning_row_def claim_update_def)
  from run x p res i nok obtain s2
    where c: "process_job_commit base t_now t_retry jb (False, out, err) s1 = (None, s2)"
      and rest: "fail_run base timeout (job_id j) xs s2 = Some s'"
    by (auto simp: Let_def split: prod.splits option.splits)
  show ?thesis
  proof (cases "attempts j + 1 > max_retries j")
    case True
    let ?dj = "?cj\<lparr>state := Dead, attempts := p_attempts jb + 1, updated_at := now_iso t_now,
                    last_error := err, picked_by := None\<rparr>"
    from True pa pm have "p_attempts jb + 1 > p_max_retries jb" by simp
    from commit_dead_row [OF pk1 cj pid this] c
    have s2: "s2 = map (\<lambda>r. if r = ?cj then ?dj else r) s1" by simp
    have "job_id ?dj = job_id ?cj" by simp
    from replace_row_keeps_key [OF pk1 cj this] s2
    have "distinct (map job_id s2)" "?dj \<in> set s2" by auto
    moreover have "job_id ?dj = job_id j" "max_retries ?dj = max_retries j"
      "attempts ?dj = attempts j + 1" "state ?dj = Dead"
      using pa by (simp_all add: claim_update_def)
    ultimately show ?thesis using st rest True by (intro conjI exI [of _ s2] exI [of _ ?dj]) auto
  next
    case False
    with pa pm have n: "\<not> p_attempts jb + 1 > p_max_retries jb" by simp
    from c have "fst (process_job_commit base t_now t_retry jb (False, out, err) s1) = None"
      by simp
    from commit_retry_raises [OF n this]
    obtain d delta due where "calculate_backoff_delay (p_attempts jb + 1) base = Inr d"
      "timedelta_seconds d = Inr delta" "dt_add t_retry delta = Inr due"
      by blast
    note r = commit_retry_row [OF pk1 cj pid n this]
    let ?fj = "?cj\<lparr>state := Failed, attempts := p_attempts jb + 1,
                    updated_at := adapt_datetime t_retry,
                    due_at := str_replace ''+00:00'' ''Z'' (isoformat (CHR ''T'') due),
                    last_error := err, picked_by := None\<rparr>"
    from r c have s2: "s2 = map (\<lambda>r. if r = ?cj then ?fj else r) s1" by simp
    have "job_id ?fj = job_id ?cj" by simp
    from replace_row_keeps_key [OF pk1 cj this] s2
    have "distinct (map job_id s2)" "?fj \<in> set s2" by auto
    moreover have "job_id ?fj = job_id j" "max_retries ?fj = max_retries j"
      "attempts ?fj = attempts j + 1" "state ?fj = Failed"
      using pa by (simp_all add: claim_update_def)
    ultimately show ?thesis using st rest False by (intro conjI exI [of _ s2] exI [of _ ?fj]) auto
  qed
qed

lemma fail_run_count:
  assumes "distinct (map job_id s)" "j \<in> set s" "state j \<noteq> Dead"
    and "attempts j \<le> max_retries j"
    and "fail_run base timeout (job_id j) xs s = Some s'"
  shows "attempts j + int (length xs) \<le> max_retries j + 1
       \<and> (\<exists>j'\<in>set s'. job_id j' = job_id j \<and> attempts j' = attempts j + int (length xs)
              \<and> (state j' = Dead \<longleftrightarrow> attempts j' = max_retries j + 1))"
  using assms
proof (induction xs arbitrary: s j)
  case Nil
  then show ?case by auto
next
  case (Cons x xs)
  from fail_run_step [OF Cons.prems(1,2,5)]
  obtain s2 j2 where pk2: "distinct (map job_id s2)" and j2: "j2 \<in> set s2"
    and id2: "job_id j2 = job_id j" and m2: "max_retries j2 = max_retries j"
    and a2: "attempts j2 = attempts j + 1"
    and st2: "state j2 = (if attempts j + 1 > max_retries j then Dead else Failed)"
    and rest: "fail_run base timeout (job_id j) xs s2 = Some s'"
    by blast
  show ?case
  proof (cases "attempts j + 1 > max_retries j")
    case True
    with st2 have dead: "state j2 = Dead" by simp
    have "xs = []"
    proof (cases xs)
      case Nil
      then show ?thesis .
    next
      case (Cons y ys)
      with rest id2 have "fail_run base timeout (job_id j2) (y # ys) s2 = Some s'" by simp
      from fail_run_step [OF pk2 j2 this] dead show ?thesis by simp
    qed
    with rest have "s' = s2" by simp
    with \<open>xs = []\<close> True Cons.prems(4) j2 id2 a2 m2 dead show ?thesis by auto
  next
    case False
    with st2 have nd: "state j2 \<noteq> Dead" by simp
    from False a2 m2 have le: "attempts j2 \<le> max_retries j2" by simp
    from rest id2 have "fail_run base timeout (job_id j2) xs s2 = Some s'" by simp
    from Cons.IH [OF pk2 j2 nd le this] id2 a2 m2 show ?thesis by auto
  qed
qed


text \<open>
  C5. When the execution of a claimed job \<open>j\<close> succeeds, the commit sets state completed,
  \<open>attempts\<close> one higher, \<open>output\<close> the first 10000 characters of the captured output,
  \<open>last_error\<close> and \<open>picked_by\<close> null and \<open>updated_at\<close> the reading \<open>now\<close>; the other fields
  of \<open>j\<close>, and the other rows, stay as they are.
\<close>

theorem commit_success_completes:
  assumes "distinct (map job_id s)" and "j \<in> set s"
  shows "process_job_commit base t_now t_retry (returning_row j) (True, out, err) s =
           (None, map (\<lambda>r. if r = j
                            then j\<lparr>state := Completed, attempts := attempts j + 1,
                                    updated_at := now_iso t_now,
                                    job_output := Some (take 10000 out),
                                    last_error := None, picked_by := None\<rparr>
                            else r) s)"
  using commit_success_row [OF assms, of "returning_row j"] by (simp add: returning_row_def)

theorem commit_success_completes_witness:
  "distinct (map job_id [demo_claimed 0, demo_job ''b'' 5 ''2025-01-01T00:00:00Z''])
   \<and> demo_claimed 0 \<in> set [demo_claimed 0, demo_job ''b'' 5 ''2025-01-01T00:00:00Z'']
   \<and> process_job_commit 2 63871286400250000 63871286400250000 (returning_row (demo_claimed 0))
        (True, [111, 107, 10], None) [demo_claimed 0, demo_job ''b'' 5 ''2025-01-01T00:00:00Z'']
      = (None,
         [\<lparr> job_id = ''a'', command = ''exit 1'', state = Completed, attempts = 1, max_retries = 1,
             created_at = ''2025-01-01T00:00:00Z'', updated_at = ''2025-01-01T00:00:00Z'',
             due_at = ''2025-01-01T00:00:00Z'', last_error = None, job_output = Some [111, 107, 10],
             priority = 0, picked_by = None \<rparr>,
          demo_job ''b'' 5 ''2025-01-01T00:00:00Z''])"
proof -
  have d: "distinct (map job_id [demo_claimed 0, demo_job ''b'' 5 ''2025-01-01T00:00:00Z''])"
    and m: "demo_claimed 0 \<in> set [demo_claimed 0, demo_job ''b'' 5 ''2025-01-01T00:00:00Z'']"
    by (simp_all add: demo_claimed_def demo_job_def)
  from commit_success_completes [OF d m, of 2 63871286400250000 63871286400250000 "[111, 107, 10]" None]
  show ?thesis using d m
    by (simp add: now_iso_sample demo_claimed_def demo_job_def)
qed


lemma dt_add_valid:
  assumes "valid_instant (t + d)"
  shows "dt_add t d = Inr (t + d)"
proof -
  from assms have "0 \<le> t + d" "t + d < 315537897600000000"
    by (simp_all add: valid_instant_def MAXORDINAL_def US_PER_DAY_def)
  then have "0 \<le> (t + d) div 86400000000" "(t + d) div 86400000000 \<le> 3652058"
    by (simp_all add: pos_imp_zdiv_nonneg_iff)
  then show ?thesis
    by (simp add: dt_add_def dt_ordinal_def MAXORDINAL_def US_PER_DAY_def Let_def)
qed

lemma timedelta_seconds_valid:
  assumes "valid_instant t" "valid_instant (t + py_round (x * 1000000))"
  shows "timedelta_seconds x = Inr (py_round (x * 1000000))"
proof -
  let ?d = "py_round (x * 1000000)"
  from assms have "- 315537897600000000 \<le> ?d" "?d \<le> 315537897600000000"
    by (simp_all add: valid_instant_def MAXORDINAL_def US_PER_DAY_def)
  from zdiv_mono1 [OF this(1), of 86400000000] zdiv_mono1 [OF this(2), of 86400000000]
  have "\<bar>?d div 86400000000\<bar> \<le> 999999999" by simp
  then show ?thesis
    by (simp add: timedelta_seconds_def US_PER_DAY_def Let_def)
qed

text \<open>
  C4. When the execution of a claimed job with \<open>a\<close> attempts fails and \<open>a + 1\<close> is at most
  \<open>max_retries\<close>, the commit sets state failed, \<open>attempts = a + 1\<close>, \<open>last_error\<close> the
  failure reason, \<open>picked_by\<close> null, and \<open>due_at\<close> the text of the instant
  \<open>now + backoff_base ^ (a + 1)\<close> seconds, where \<open>now\<close> is the clock reading of that branch
  and the exponent is the attempt count after the increment; after the first failure the
  delay is \<open>backoff_base ^ 1\<close>. The number of attempts is not negative and both instants are
  ones a \<^verbatim>\<open>datetime\<close> can hold (otherwise Python raises before the update).
\<close>

theorem commit_failure_schedules_retry:
  assumes "distinct (map job_id s)" and "j \<in> set s"
    and "0 \<le> attempts j" and "attempts j + 1 \<le> max_retries j"
    and "valid_instant t_retry"
    and "valid_instant (t_retry + py_round (base ^ nat (attempts j + 1) * 1000000))"
  shows "process_job_commit base t_now t_retry (returning_row j) (False, out, err) s =
           (None, map (\<lambda>r. if r = j
                            then j\<lparr>state := Failed, attempts := attempts j + 1,
                                    updated_at := adapt_datetime t_retry,
                                    due_at := str_replace ''+00:00'' ''Z''
                                      (isoformat (CHR ''T'')
                                         (t_retry + py_round (base ^ nat (attempts j + 1) * 1000000))),
                                    last_error := err, picked_by := None\<rparr>
                            else r) s)
       \<and> calculate_backoff_delay (attempts j + 1) base = Inr (base ^ nat (attempts j + 1))
       \<and> calculate_backoff_delay 1 base = Inr base"
proof -
  let ?jb = "returning_row j"
  let ?d = "base ^ nat (attempts j + 1)"
  have id: "p_id ?jb = job_id j" and a: "p_attempts ?jb = attempts j"
    and m: "p_max_retries ?jb = max_retries j"
    by (simp_all add: returning_row_def)
  from assms(3) have delay: "calculate_backoff_delay (attempts j + 1) base = Inr ?d"
    by (simp add: calculate_backoff_delay_def power_int_def)
  have one: "calculate_backoff_delay 1 base = Inr base"
    by (simp add: calculate_backoff_delay_def)
  from assms(4) a m have n: "\<not> p_attempts ?jb + 1 > p_max_retries ?jb" by simp
  from delay a have 1: "calculate_backoff_delay (p_attempts ?jb + 1) base = Inr ?d" by simp
  note 2 = timedelta_seconds_valid [OF assms(5,6)]
  note 3 = dt_add_valid [OF assms(6)]
  from commit_retry_row [OF assms(1,2) id n 1 2 3, of t_now out err] a delay one
  show ?thesis by simp
qed

theorem commit_failure_schedules_retry_witness:
  "distinct (map job_id [demo_claimed 0]) \<and> demo_claimed 0 \<in> set [demo_claimed 0]
   \<and> 0 \<le> attempts (demo_claimed 0) \<and> attempts (demo_claimed 0) + 1 \<le> max_retries (demo_claimed 0)
   \<and> valid_instant 63871286400250000
   \<and> valid_instant (63871286400250000 + py_round (2 ^ nat (attempts (demo_claimed 0) + 1) * 1000000))
   \<and> process_job_commit 2 63871286400250000 63871286400250000 (returning_row (demo_claimed 0))
        (False, [], Some ''Command failed with exit code 1'') [demo_claimed 0]
      = (None,
         [(demo_claimed 0)\<lparr>state := Failed, attempts := 1,
             updated_at := adapt_datetime 63871286400250000,
             due_at := str_replace ''+00:00'' ''Z'' (isoformat (CHR ''T'') 63871286402250000),
             last_error := Some ''Command failed with exit code 1'', picked_by := None\<rparr>])
   \<and> calculate_backoff_delay 1 2 = Inr 2"
proof -
  have h: "distinct (map job_id [demo_claimed 0])" "demo_claimed 0 \<in> set [demo_claimed 0]"
    "0 \<le> attempts (demo_claimed 0)" "attempts (demo_claimed 0) + 1 \<le> max_retries (demo_claimed 0)"
    "valid_instant 63871286400250000"
    "valid_instant (63871286400250000 + py_round (2 ^ nat (attempts (demo_claimed 0) + 1) * 1000000))"
    by (simp_all add: demo_claimed_def demo_job_def valid_instant_def MAXORDINAL_def US_PER_DAY_def
        py_round_def)
  have a: "attempts (demo_claimed 0) = 0"
    by (simp add: demo_claimed_def)
  from commit_failure_schedules_retry [OF h, of 63871286400250000 "[]" "Some ''Command failed with exit code 1''"] h
  show ?thesis by (simp add: a py_round_def)
qed

text \<open>
  C3. When the execution of a claimed job with \<open>a\<close> attempts fails and \<open>a + 1\<close> exceeds
  \<open>max_retries\<close>, the commit sets state dead, \<open>attempts = a + 1\<close>, \<open>last_error\<close> the failure
  reason and \<open>picked_by\<close> null, and leaves \<open>due_at\<close> (and every field not named) as it was.
  Consequently, for a pending job with no attempts and \<open>max_retries = M \<ge> 0\<close>: a run of
  executions that all fail has at most \<open>M + 1\<close> of them, and the job is dead after the run
  exactly when the run has \<open>M + 1\<close> executions.
\<close>

theorem exhausted_retries_go_dead:
  assumes "distinct (map job_id s)" and "j \<in> set s"
  shows "(max_retries j < attempts j + 1 \<longrightarrow>
            process_job_commit base t_now t_retry (returning_row j) (False, out, err) s =
              (None, map (\<lambda>r. if r = j
                               then j\<lparr>state := Dead, attempts := attempts j + 1,
                                       updated_at := now_iso t_now,
                                       last_error := err, picked_by := None\<rparr>
                               else r) s))
       \<and> (state j = Pending \<and> attempts j = 0 \<and> 0 \<le> max_retries j
            \<and> fail_run base timeout (job_id j) xs s = Some s' \<longrightarrow>
            length xs \<le> nat (max_retries j) + 1
            \<and> (\<exists>j'\<in>set s'. job_id j' = job_id j \<and> attempts j' = int (length xs)
                   \<and> (state j' = Dead \<longleftrightarrow> length xs = nat (max_retries j) + 1)))"
proof (intro conjI impI)
  assume "max_retries j < attempts j + 1"
  then have "p_attempts (returning_row j) + 1 > p_max_retries (returning_row j)"
    by (simp add: returning_row_def)
  from commit_dead_row [OF assms _ this, of base t_now t_retry out err]
  show "process_job_commit base t_now t_retry (returning_row j) (False, out, err) s =
          (None, map (\<lambda>r. if r = j
                           then j\<lparr>state := Dead, attempts := attempts j + 1,
                                   updated_at := now_iso t_now,
                                   last_error := err, picked_by := None\<rparr>
                           else r) s)"
    by (simp add: returning_row_def)
next
  assume h: "state j = Pending \<and> attempts j = 0 \<and> 0 \<le> max_retries j
             \<and> fail_run base timeout (job_id j) xs s = Some s'"
  then have "state j \<noteq> Dead" "attempts j \<le> max_retries j"
    "fail_run base timeout (job_id j) xs s = Some s'" by simp_all
  from fail_run_count [OF assms this] h
  have c: "int (length xs) \<le> max_retries j + 1
           \<and> (\<exists>j'\<in>set s'. job_id j' = job_id j \<and> attempts j' = int (length xs)
                  \<and> (state j' = Dead \<longleftrightarrow> attempts j' = max_retries j + 1))"
    by simp
  from c h show "length xs \<le> nat (max_retries j) + 1" by linarith
  from c obtain j' where j': "j' \<in> set s'" "job_id j' = job_id j" "attempts j' = int (length xs)"
    "state j' = Dead \<longleftrightarrow> attempts j' = max_retries j + 1" by blast
  from h j'(3) have "attempts j' = max_retries j + 1 \<longleftrightarrow> length xs = nat (max_retries j) + 1"
    by linarith
  with j' show "\<exists>j'\<in>set s'. job_id j' = job_id j \<and> attempts j' = int (length xs)
                  \<and> (state j' = Dead \<longleftrightarrow> length xs = nat (max_retries j) + 1)"
    by blast
qed


lemma fail_run_sample:
  "fail_run 2 120 ''a'' demo_run [demo_job ''a'' 0 ''2025-01-01T00:00:00Z'']
   = Some [\<lparr> job_id = ''a'', command = ''exit 1'', state = Dead, attempts = 2, max_retries = 1,
       created_at = ''2025-01-01T00:00:00Z'', updated_at = ''2025-01-01T00:00:03Z'',
       due_at = ''2025-01-01T00:00:02.250000Z'',
       last_error = Some ''Command failed with exit code 1'', job_output = None,
       priority = 0, picked_by = None \<rparr>]"
  by (simp add: demo_run_def op_eval commit_eval clock_eval)

theorem exhausted_retries_go_dead_witness:
  "(distinct (map job_id [demo_claimed 1]) \<and> demo_claimed 1 \<in> set [demo_claimed 1]
    \<and> max_retries (demo_claimed 1) < attempts (demo_claimed 1) + 1
    \<and> process_job_commit 2 63871286400250000 63871286400250000 (returning_row (demo_claimed 1))
         (False, [], Some ''Command failed with exit code 1'') [demo_claimed 1]
       = (None,
          [(demo_claimed 1)\<lparr>state := Dead, attempts := 2, updated_at := ''2025-01-01T00:00:00Z'',
              last_error := Some ''Command failed with exit code 1'', picked_by := None\<rparr>]))
   \<and> (distinct (map job_id [demo_job ''a'' 0 ''2025-01-01T00:00:00Z''])
      \<and> state (demo_job ''a'' 0 ''2025-01-01T00:00:00Z'') = Pending
      \<and> attempts (demo_job ''a'' 0 ''2025-01-01T00:00:00Z'') = 0
      \<and> 0 \<le> max_retries (demo_job ''a'' 0 ''2025-01-01T00:00:00Z'')
      \<and> fail_run 2 120 ''a'' demo_run [demo_job ''a'' 0 ''2025-01-01T00:00:00Z''] \<noteq> None
      \<and> length demo_run = nat (max_retries (demo_job ''a'' 0 ''2025-01-01T00:00:00Z'')) + 1
      \<and> (\<exists>j'\<in>set (the (fail_run 2 120 ''a'' demo_run [demo_job ''a'' 0 ''2025-01-01T00:00:00Z''])).
             job_id j' = ''a'' \<and> attempts j' = 2 \<and> state j' = Dead))"
proof -
  let ?c = "demo_claimed 1" and ?a = "demo_job ''a'' 0 ''2025-01-01T00:00:00Z''"
  let ?s' = "the (fail_run 2 120 ''a'' demo_run [?a])"
  have c: "distinct (map job_id [?c])" "?c \<in> set [?c]" "max_retries ?c < attempts ?c + 1"
    by (simp_all add: demo_claimed_def demo_job_def)
  have a: "distinct (map job_id [?a])" "?a \<in> set [?a]"
    and h: "state ?a = Pending" "attempts ?a = 0" "0 \<le> max_retries ?a" "job_id ?a = ''a''"
    and n: "length demo_run = nat (max_retries ?a) + 1"
    by (simp_all add: demo_job_def demo_run_def)
  have r: "fail_run 2 120 (job_id ?a) demo_run [?a] = Some ?s'"
    by (simp add: h fail_run_sample)
  from exhausted_retries_go_dead [OF c(1,2), of 2 63871286400250000 63871286400250000 "[]"
      "Some ''Command failed with exit code 1''"] c(3)
  have 1: "process_job_commit 2 63871286400250000 63871286400250000 (returning_row ?c)
         (False, [], Some ''Command failed with exit code 1'') [?c]
       = (None,
          [?c\<lparr>state := Dead, attempts := 2, updated_at := ''2025-01-01T00:00:00Z'',
              last_error := Some ''Command failed with exit code 1'', picked_by := None\<rparr>])"
    by (simp add: now_iso_sample demo_claimed_def)
  from exhausted_retries_go_dead [OF a, of 2 _ _ _ _ 120 demo_run ?s'] h r n
  have 2: "\<exists>j'\<in>set ?s'. job_id j' = ''a'' \<and> attempts j' = 2 \<and> state j' = Dead"
    by (simp add: demo_run_def)
  have 3: "fail_run 2 120 ''a'' demo_run [?a] \<noteq> None"
    by (simp add: fail_run_sample)
  from c a h n 1 2 3 show ?thesis by blast
qed

subsection \<open>Captured output\<close>

lemma commit_raise_keeps_table:
  assumes "fst (process_job_commit base t_now t_retry jb res s) \<noteq> None"
  shows "snd (process_job_commit base t_now t_retry jb res s) = s"
proof -
  obtain ok out err where res: "res = (ok, out, err)" by (cases res) auto
  from assms show ?thesis
    unfolding res process_job_commit_def
    by (auto simp: Let_def split: sum.splits if_splits)
qed

lemma commit_failure_keeps_output:
  assumes pk: "distinct (map job_id s)" and j: "j \<in> set s"
  shows "\<exists>j'. snd (process_job_commit base t_now t_retry (returning_row j) (False, out, err) s)
               = map (\<lambda>r. if r = j then j' else r) s
            \<and> job_output j' = job_output j"
proof -
  let ?jb = "returning_row j"
  let ?c = "process_job_commit base t_now t_retry ?jb (False, out, err) s"
  have id: "p_id ?jb = job_id j" by (simp add: returning_row_def)
  show ?thesis
  proof (cases "fst ?c = None")
    case False
    from commit_raise_keeps_table [OF False] have "snd ?c = map (\<lambda>r. if r = j then j else r) s"
      by (simp add: map_idI)
    then show ?thesis by blast
  next
    case True
    show ?thesis
    proof (cases "p_attempts ?jb + 1 > p_max_retries ?jb")
      case d: True
      from commit_dead_row [OF pk j id d, of base t_now t_retry out err]
      show ?thesis
        by (intro exI [of _ "j\<lparr>state := Dead, attempts := p_attempts ?jb + 1,
              updated_at := now_iso t_now, last_error := err, picked_by := None\<rparr>"]) simp
    next
      case n: False
      from commit_retry_raises [OF n True]
      obtain d delta due where "calculate_backoff_delay (p_attempts ?jb + 1) base = Inr d"
        "timedelta_seconds d = Inr delta" "dt_add t_retry delta = Inr due"
        by blast
      from commit_retry_row [OF pk j id n this, of t_now out err]
      show ?thesis
        by (intro exI [of _ "j\<lparr>state := Failed, attempts := p_attempts ?jb + 1,
              updated_at := adapt_datetime t_retry,
              due_at := str_replace ''+00:00'' ''Z'' (isoformat (CHR ''T'') due),
              last_error := err, picked_by := None\<rparr>"]) simp
    qed
  qed
qed

text \<open>
  C7, as the specification states it, has the captured output stored after every
  execution and at most 10000 bytes long. A command that prints \<^verbatim>\<open>oops\<close> and exits with
  code 1 leaves \<open>output\<close> null: neither failure branch writes the column. And a successful
  command that prints 10000 times the letter U+00E9 has all of it stored, 20000 bytes of
  UTF-8: the slice counts characters.
\<close>

theorem failure_discards_output:
  "fst (snd (execute_job (Exited 1 [111, 111, 112, 115] []) 120)) = [111, 111, 112, 115]
   \<and> map job_output
        (snd (process_job_commit 2 63871286400250000 63871286400250000
                (returning_row (demo_claimed 0))
                (execute_job (Exited 1 [111, 111, 112, 115] []) 120) [demo_claimed 0]))
       = [None]
   \<and> map job_output
        (snd (process_job_commit 2 63871286400250000 63871286400250000
                (returning_row (demo_claimed 0))
                (execute_job (Exited 0 (replicate 10000 233) []) 120) [demo_claimed 0]))
       = [Some (replicate 10000 233)]
   \<and> utf8_bytes (replicate 10000 233) = 20000"
proof (intro conjI)
  show "fst (snd (execute_job (Exited 1 [111, 111, 112, 115] []) 120)) = [111, 111, 112, 115]"
    by (simp add: execute_job_def)
  show "map job_output
        (snd (process_job_commit 2 63871286400250000 63871286400250000
                (returning_row (demo_claimed 0))
                (execute_job (Exited 1 [111, 111, 112, 115] []) 120) [demo_claimed 0]))
       = [None]"
    by (simp add: op_eval commit_eval clock_eval)
  have "take 10000 (replicate 10000 (233::nat)) = replicate 10000 233"
    by (simp only: take_replicate min.idem)
  then show "map job_output
        (snd (process_job_commit 2 63871286400250000 63871286400250000
                (returning_row (demo_claimed 0))
                (execute_job (Exited 0 (replicate 10000 233) []) 120) [demo_claimed 0]))
       = [Some (replicate 10000 233)]"
    by (simp add: process_job_commit_def execute_job_def sql_update_def returning_row_def
        demo_claimed_def demo_job_def)
  have "utf8_len 233 = 2" by (simp add: utf8_len_def)
  then show "utf8_bytes (replicate 10000 233) = 20000"
    by (simp add: utf8_bytes_def sum_list_replicate)
qed

text \<open>
  C7, amended. When the command exits with code 0, the commit stores the captured standard
  output followed by the captured standard error, cut to the first 10000 characters, so the
  stored text has at most 10000 characters. When the execution fails (another exit code, a
  timeout, an exception of the executor), the commit leaves \<open>output\<close> as it was.
\<close>

theorem output_stored_on_success_only:
  assumes "distinct (map job_id s)" and "j \<in> set s"
  shows "(\<exists>j'. process_job_commit base t_now t_retry (returning_row j)
                 (execute_job (Exited 0 out err) timeout) s
               = (None, map (\<lambda>r. if r = j then j' else r) s)
             \<and> job_output j' = Some (take 10000 (out @ err)))
       \<and> length (take 10000 (out @ err)) \<le> 10000
       \<and> (\<not> fst (execute_job outcome timeout) \<longrightarrow>
            (\<exists>j'. snd (process_job_commit base t_now t_retry (returning_row j)
                          (execute_job outcome timeout) s)
                     = map (\<lambda>r. if r = j then j' else r) s
                  \<and> job_output j' = job_output j))"
proof (intro conjI impI)
  have "execute_job (Exited 0 out err) timeout = (True, out @ err, None)"
    by (simp add: execute_job_def)
  with commit_success_row [OF assms, of "returning_row j" base t_now t_retry "out @ err" None]
  show "\<exists>j'. process_job_commit base t_now t_retry (returning_row j)
                 (execute_job (Exited 0 out err) timeout) s
               = (None, map (\<lambda>r. if r = j then j' else r) s)
             \<and> job_output j' = Some (take 10000 (out @ err))"
    by (intro exI [of _ "j\<lparr>state := Completed, attempts := attempts j + 1,
          updated_at := now_iso t_now, job_output := Some (take 10000 (out @ err)),
          last_error := None, picked_by := None\<rparr>"]) (simp add: returning_row_def)
next
  show "length (take 10000 (out @ err)) \<le> 10000" by simp
next
  assume f: "\<not> fst (execute_job outcome timeout)"
  then obtain o' e' where "execute_job outcome timeout = (False, o', e')"
    by (cases "execute_job outcome timeout") auto
  with commit_failure_keeps_output [OF assms, of base t_now t_retry o' e']
  show "\<exists>j'. snd (process_job_commit base t_now t_retry (returning_row j)
                          (execute_job outcome timeout) s)
                     = map (\<lambda>r. if r = j then j' else r) s
                  \<and> job_output j' = job_output j"
    by simp
qed

theorem output_stored_on_success_only_witness:
  "distinct (map job_id [demo_claimed 0]) \<and> demo_claimed 0 \<in> set [demo_claimed 0]
   \<and> \<not> fst (execute_job TimeoutExpired 120)
   \<and> (\<exists>j'. process_job_commit 2 63871286400250000 63871286400250000 (returning_row (demo_claimed 0))
                 (execute_job (Exited 0 [111, 107] [10]) 120) [demo_claimed 0]
               = (None, [j'])
             \<and> job_output j' = Some [111, 107, 10])
   \<and> (\<exists>j'. snd (process_job_commit 2 63871286400250000 63871286400250000
                     (returning_row (demo_claimed 0))
                     (execute_job TimeoutExpired 120) [demo_claimed 0])
               = [j']
             \<and> job_output j' = None)"
proof -
  have h: "distinct (map job_id [demo_claimed 0])" "demo_claimed 0 \<in> set [demo_claimed 0]"
    by simp_all
  have f: "\<not> fst (execute_job TimeoutExpired 120)"
    by (simp add: execute_job_def)
  have o: "job_output (demo_claimed 0) = None"
    by (simp add: demo_claimed_def demo_job_def)
  from output_stored_on_success_only [OF h, of 2 63871286400250000 63871286400250000
      "[111, 107]" "[10]" 120 TimeoutExpired] f o h
  show ?thesis by simp
qed

subsection \<open>The claim invariant\<close>

lemma sql_update_keeps_ids:
  assumes "\<And>r. job_id (upd r) = job_id r"
  shows "map job_id (sql_update c upd s) = map job_id s"
  using assms by (induction s) (auto simp: sql_update_def)

lemma reachable_distinct: "reachable s \<Longrightarrow> distinct (map job_id s)"
proof (induction rule: reachable.induct)
  case empty
  show ?case by simp
next
  case (enqueue s m t_ts t_created req)
  then show ?case
    by (auto simp: enqueue_job_def Let_def split: option.splits)
next
  case (claim s w t tie)
  then show ?case
    by (auto simp: pick_next_job_def Let_def sql_update_keeps_ids claim_update_def
        split: option.splits)
next
  case (commit s base t_now t_retry jb res)
  obtain ok out err where res: "res = (ok, out, err)" by (cases res) auto
  from commit show ?case
    unfolding res process_job_commit_def
    by (auto simp: Let_def sql_update_keeps_ids split: sum.splits)
next
  case (retry s jid t_due t_upd)
  then show ?case
    by (auto simp: dlq_retry_def Let_def sql_update_keeps_ids split: list.splits)
qed

lemma exclusive_claim_sql_update:
  assumes "exclusive_claim s"
    and "\<And>r. state (upd r) = Processing \<longleftrightarrow> picked_by (upd r) \<noteq> None"
  shows "exclusive_claim (sql_update c upd s)"
  using assms by (auto simp: exclusive_claim_def sql_update_def)

lemma exclusive_claim_enqueue:
  "exclusive_claim s \<Longrightarrow> exclusive_claim (snd (enqueue_job m t_ts t_created req s))"
  by (auto simp: enqueue_job_def exclusive_claim_def Let_def split: option.splits)

lemma exclusive_claim_pick:
  assumes "exclusive_claim s"
  shows "exclusive_claim (snd (pick_next_job w t tie s))"
proof (cases "select_limit_1 tie (now_iso t) s")
  case None
  with assms show ?thesis by (simp add: pick_next_job_def)
next
  case (Some j)
  then have "snd (pick_next_job w t tie s) =
      sql_update (\<lambda>r. job_id r = job_id j \<and> state r \<in> {Pending, Failed})
        (claim_update w (now_iso t)) s"
    by (simp add: pick_next_job_def Let_def)
  with exclusive_claim_sql_update [OF assms] show ?thesis
    by (simp add: claim_update_def)
qed

lemma exclusive_claim_commit:
  assumes "exclusive_claim s"
  shows "exclusive_claim (snd (process_job_commit base t_now t_retry jb res s))"
proof -
  obtain ok out err where res: "res = (ok, out, err)" by (cases res) auto
  show ?thesis
    unfolding res process_job_commit_def
    using assms by (auto simp: Let_def intro!: exclusive_claim_sql_update split: sum.splits)
qed

lemma exclusive_claim_retry:
  assumes "exclusive_claim s"
  shows "exclusive_claim (snd (dlq_retry jid t_due t_upd s))"
  using assms
  by (auto simp: dlq_retry_def Let_def intro!: exclusive_claim_sql_update split: list.splits)

lemma reachable_exclusive_claim: "reachable s \<Longrightarrow> exclusive_claim s"
proof (induction rule: reachable.induct)
  case empty
  show ?case by (simp add: exclusive_claim_def)
next
  case (enqueue s m t_ts t_created req)
  then show ?case by (simp add: exclusive_claim_enqueue)
next
  case (claim s w t tie)
  then show ?case by (simp add: exclusive_claim_pick)
next
  case (commit s base t_now t_retry jb res)
  then show ?case by (simp add: exclusive_claim_commit)
next
  case (retry s jid t_due t_upd)
  then show ?case by (simp add: exclusive_claim_retry)
qed

text \<open>
  C2. In every table that enqueue, claim, result-commit and DLQ retry can produce from the
  empty table, a row has state processing if and only if its \<open>picked_by\<close> is not null; and
  each of the four operations, run with any arguments on any table where this holds, leaves
  a table where it holds.
\<close>

theorem processing_iff_picked:
  "(reachable s \<longrightarrow> (\<forall>r\<in>set s. state r = Processing \<longleftrightarrow> picked_by r \<noteq> None))
   \<and> (exclusive_claim s \<longrightarrow>
         exclusive_claim (snd (enqueue_job m t_ts t_created req s))
       \<and> exclusive_claim (snd (pick_next_job w t tie s))
       \<and> exclusive_claim (snd (process_job_commit base t_now t_retry jb res s))
       \<and> exclusive_claim (snd (dlq_retry jid t_due t_upd s)))"
  using reachable_exclusive_claim [of s]
  by (auto simp: exclusive_claim_enqueue exclusive_claim_pick exclusive_claim_commit
      exclusive_claim_retry exclusive_claim_def [of s])

lemma enqueue_sample:
  "enqueue_job 3 63871286400250000 63871286400250000 demo_request [] =
     (None,
      [\<lparr> job_id = ''j1'', command = ''echo ok'', state = Pending, attempts = 0, max_retries = 3,
          created_at = ''2025-01-01T00:00:00Z'', updated_at = ''2025-01-01T00:00:00Z'',
          due_at = ''2025-01-01T00:00:00Z'', last_error = None, job_output = None,
          priority = 0, picked_by = None \<rparr>])"
  by (simp add: op_eval commit_eval now_iso_sample)

lemma enqueue_claim_sample:
  "snd (pick_next_job ''w1'' 63871286400250000 0
          (snd (enqueue_job 3 63871286400250000 63871286400250000 demo_request []))) =
     [\<lparr> job_id = ''j1'', command = ''echo ok'', state = Processing, attempts = 0, max_retries = 3,
         created_at = ''2025-01-01T00:00:00Z'', updated_at = ''2025-01-01T00:00:00Z'',
         due_at = ''2025-01-01T00:00:00Z'', last_error = None, job_output = None,
         priority = 0, picked_by = Some ''w1'' \<rparr>]"
  by (simp add: op_eval commit_eval now_iso_sample)

theorem processing_iff_picked_witness:
  "reachable
     [\<lparr> job_id = ''j1'', command = ''echo ok'', state = Processing, attempts = 0, max_retries = 3,
         created_at = ''2025-01-01T00:00:00Z'', updated_at = ''2025-01-01T00:00:00Z'',
         due_at = ''2025-01-01T00:00:00Z'', last_error = None, job_output = None,
         priority = 0, picked_by = Some ''w1'' \<rparr>]
   \<and> exclusive_claim
     [\<lparr> job_id = ''j1'', command = ''echo ok'', state = Processing, attempts = 0, max_retries = 3,
         created_at = ''2025-01-01T00:00:00Z'', updated_at = ''2025-01-01T00:00:00Z'',
         due_at = ''2025-01-01T00:00:00Z'', last_error = None, job_output = None,
         priority = 0, picked_by = Some ''w1'' \<rparr>]
   \<and> exclusive_claim
     (snd (process_job_commit 2 63871286400250000 63871286400250000
        \<lparr>p_id = ''j1'', p_command = ''echo ok'', p_attempts = 0, p_max_retries = 3,
          p_state = Processing, p_last_error = None\<rparr> (True, [111, 107, 10], None)
     [\<lparr> job_id = ''j1'', command = ''echo ok'', state = Processing, attempts = 0, max_retries = 3,
         created_at = ''2025-01-01T00:00:00Z'', updated_at = ''2025-01-01T00:00:00Z'',
         due_at = ''2025-01-01T00:00:00Z'', last_error = None, job_output = None,
         priority = 0, picked_by = Some ''w1'' \<rparr>]))"
proof -
  let ?s = "[\<lparr> job_id = ''j1'', command = ''echo ok'', state = Processing, attempts = 0,
         max_retries = 3,
         created_at = ''2025-01-01T00:00:00Z'', updated_at = ''2025-01-01T00:00:00Z'',
         due_at = ''2025-01-01T00:00:00Z'', last_error = None, job_output = None,
         priority = 0, picked_by = Some ''w1'' \<rparr>]"
  have "reachable (snd (pick_next_job ''w1'' 63871286400250000 0
          (snd (enqueue_job 3 63871286400250000 63871286400250000 demo_request []))))"
    by (intro reachable.claim reachable.enqueue reachable.empty)
  then have r: "reachable ?s" by (simp only: enqueue_claim_sample)
  have e: "exclusive_claim ?s" by (simp add: exclusive_claim_def)
  from processing_iff_picked [of ?s] r e show ?thesis by blast
qed

subsection \<open>Dead-letter queue\<close>

lemma dlq_retry_hit:
  assumes "distinct (map job_id s)" "j \<in> set s" "state j = Dead"
  shows "dlq_retry (job_id j) t_due t_upd s =
           (None, map (\<lambda>r. if r = j
                            then j\<lparr>state := Pending, attempts := 0, due_at := now_iso t_due,
                                    updated_at := now_iso t_upd, last_error := None,
                                    picked_by := None\<rparr>
                            else r) s)"
proof -
  let ?g = "\<lambda>r. state r = Dead"
  have f: "filter (\<lambda>r. job_id r = job_id j \<and> ?g r) s = [j]"
    using filter_key_singleton [of job_id s j ?g] assms by simp
  from sql_update_one [of s j ?g] assms f show ?thesis
    by (simp add: dlq_retry_def sql_returning_def Let_def)
qed

lemma dlq_retry_miss:
  assumes "\<forall>j\<in>set s. job_id j = jid \<longrightarrow> state j \<noteq> Dead"
  shows "dlq_retry jid t_due t_upd s =
           (Some (SystemExit (''Job '' @ [CHR 0x27] @ jid @ [CHR 0x27] @ '' not found in DLQ'')), s)"
proof -
  from assms have "filter (\<lambda>r. job_id r = jid \<and> state r = Dead) s = []"
    by (auto simp: filter_empty_conv)
  then show ?thesis
    by (simp add: dlq_retry_def sql_returning_def Let_def)
qed

lemma now_iso_same_second:
  assumes "t1 div 1000000 = t2 div 1000000"
  shows "now_iso t1 = now_iso t2"
proof -
  have "t1 - t1 mod 1000000 = t2 - t2 mod 1000000"
    using assms by (simp add: minus_mod_eq_mult_div)
  then show ?thesis
    by (simp add: now_iso_def replace_microsecond_0_def dt_microsecond_def)
qed

text \<open>
  C6, as the specification states it, has \<open>due_at = updated_at = now\<close> after a retry. The code
  reads the clock once for each of the two columns: with the first reading at
  2025-01-01T00:00:00.999999 and the second two microseconds later, the retry succeeds and
  the two columns differ.
\<close>

theorem dlq_retry_two_clock_readings:
  "fst (dlq_retry ''j5'' 63871286400999999 63871286401000001 [demo_dead]) = None
   \<and> map due_at (snd (dlq_retry ''j5'' 63871286400999999 63871286401000001 [demo_dead]))
       = [''2025-01-01T00:00:00Z'']
   \<and> map updated_at (snd (dlq_retry ''j5'' 63871286400999999 63871286401000001 [demo_dead]))
       = [''2025-01-01T00:00:01Z'']
   \<and> map due_at (snd (dlq_retry ''j5'' 63871286400999999 63871286401000001 [demo_dead]))
       \<noteq> map updated_at (snd (dlq_retry ''j5'' 63871286400999999 63871286401000001 [demo_dead]))"
  by (simp add: op_eval commit_eval clock_eval)

text \<open>
  C6, amended. On a table with distinct ids, \<^verbatim>\<open>dlq_retry(id)\<close> succeeds if and only if a row
  with that id exists and is dead. On success that row, and no other, changes: state
  pending, \<open>attempts = 0\<close>, \<open>last_error\<close> and \<open>picked_by\<close> null, \<open>due_at\<close> the canonical text of a
  first clock reading and \<open>updated_at\<close> that of a second; the two texts are equal whenever
  both readings fall in the same second. Otherwise the call ends with the error
  \<^verbatim>\<open>Job '<id>' not found in DLQ\<close> and the table is unchanged.
\<close>

theorem dlq_retry_readmits:
  assumes "distinct (map job_id s)"
  shows "(fst (dlq_retry jid t_due t_upd s) = None \<longleftrightarrow> (\<exists>j\<in>set s. job_id j = jid \<and> state j = Dead))
       \<and> (\<forall>j\<in>set s. job_id j = jid \<and> state j = Dead \<longrightarrow>
             dlq_retry jid t_due t_upd s =
               (None, map (\<lambda>r. if r = j
                                then j\<lparr>state := Pending, attempts := 0, due_at := now_iso t_due,
                                        updated_at := now_iso t_upd, last_error := None,
                                        picked_by := None\<rparr>
                                else r) s))
       \<and> ((\<forall>j\<in>set s. job_id j = jid \<longrightarrow> state j \<noteq> Dead) \<longrightarrow>
             dlq_retry jid t_due t_upd s =
               (Some (SystemExit (''Job '' @ [CHR 0x27] @ jid @ [CHR 0x27] @ '' not found in DLQ'')), s))
       \<and> (t_due div 1000000 = t_upd div 1000000 \<longrightarrow> now_iso t_due = now_iso t_upd)"
proof (intro conjI)
  show "fst (dlq_retry jid t_due t_upd s) = None \<longleftrightarrow> (\<exists>j\<in>set s. job_id j = jid \<and> state j = Dead)"
  proof (cases "\<exists>j\<in>set s. job_id j = jid \<and> state j = Dead")
    case True
    then obtain j where "j \<in> set s" "job_id j = jid" "state j = Dead" by blast
    with dlq_retry_hit [OF assms, of j t_due t_upd] True show ?thesis by simp
  next
    case False
    then have "\<forall>j\<in>set s. job_id j = jid \<longrightarrow> state j \<noteq> Dead" by blast
    from dlq_retry_miss [OF this, of t_due t_upd] False show ?thesis by simp
  qed
next
  show "\<forall>j\<in>set s. job_id j = jid \<and> state j = Dead \<longrightarrow>
             dlq_retry jid t_due t_upd s =
               (None, map (\<lambda>r. if r = j
                                then j\<lparr>state := Pending, attempts := 0, due_at := now_iso t_due,
                                        updated_at := now_iso t_upd, last_error := None,
                                        picked_by := None\<rparr>
                                else r) s)"
    using dlq_retry_hit [OF assms] by blast
next
  show "(\<forall>j\<in>set s. job_id j = jid \<longrightarrow> state j \<noteq> Dead) \<longrightarrow>
             dlq_retry jid t_due t_upd s =
               (Some (SystemExit (''Job '' @ [CHR 0x27] @ jid @ [CHR 0x27] @ '' not found in DLQ'')), s)"
    using dlq_retry_miss by blast
next
  show "t_due div 1000000 = t_upd div 1000000 \<longrightarrow> now_iso t_due = now_iso t_upd"
    using now_iso_same_second by blast
qed

theorem dlq_retry_readmits_witness:
  "distinct (map job_id [demo_dead, demo_claimed 0])
   \<and> fst (dlq_retry ''j5'' 63871286400250000 63871286400250000 [demo_dead, demo_claimed 0]) = None
   \<and> dlq_retry ''j5'' 63871286400250000 63871286400250000 [demo_dead, demo_claimed 0] =
       (None,
        [demo_dead\<lparr>state := Pending, attempts := 0, due_at := ''2025-01-01T00:00:00Z'',
            updated_at := ''2025-01-01T00:00:00Z'', last_error := None, picked_by := None\<rparr>,
         demo_claimed 0])
   \<and> dlq_retry ''a'' 63871286400250000 63871286400250000 [demo_dead, demo_claimed 0] =
       (Some (SystemExit ''Job 'a' not found in DLQ''), [demo_dead, demo_claimed 0])"
proof -
  let ?s = "[demo_dead, demo_claimed 0]"
  have d: "distinct (map job_id ?s)"
    by (simp add: demo_dead_def demo_claimed_def demo_job_def)
  have j: "demo_dead \<in> set ?s" "job_id demo_dead = ''j5''" "state demo_dead = Dead"
    by (simp_all add: demo_dead_def demo_job_def)
  have n: "\<forall>j\<in>set ?s. job_id j = ''a'' \<longrightarrow> state j \<noteq> Dead"
    by (simp add: demo_dead_def demo_claimed_def demo_job_def)
  have ne: "demo_claimed 0 \<noteq> demo_dead"
    by (simp add: demo_dead_def demo_claimed_def demo_job_def)
  note t = dlq_retry_readmits [OF d, of _ 63871286400250000 63871286400250000]
  from t [of "''j5''"] j have 1: "fst (dlq_retry ''j5'' 63871286400250000 63871286400250000 ?s) = None"
    by blast
  from t [of "''j5''"] j ne
  have 2: "dlq_retry ''j5'' 63871286400250000 63871286400250000 ?s =
       (None,
        [demo_dead\<lparr>state := Pending, attempts := 0, due_at := ''2025-01-01T00:00:00Z'',
            updated_at := ''2025-01-01T00:00:00Z'', last_error := None, picked_by := None\<rparr>,
         demo_claimed 0])"
    by (simp add: now_iso_sample)
  from t [of "''a''"] n
  have 3: "dlq_retry ''a'' 63871286400250000 63871286400250000 ?s =
       (Some (SystemExit ''Job 'a' not found in DLQ''), ?s)"
    by simp
  from d 1 2 3 show ?thesis by blast
qed

text \<open>
  C10. A successful \<^verbatim>\<open>dlq_retry\<close> of a dead job changes that row only, and in it only the
  fields state, \<open>attempts\<close>, \<open>due_at\<close>, \<open>updated_at\<close>, \<open>last_error\<close> and \<open>picked_by\<close>: the id,
  \<open>command\<close>, \<open>created_at\<close>, \<open>priority\<close>, \<open>max_retries\<close> and \<open>output\<close> are those of the job before.
\<close>

theorem dlq_retry_frame:
  assumes "distinct (map job_id s)" and "j \<in> set s" and "state j = Dead"
  shows "\<exists>j'. dlq_retry (job_id j) t_due t_upd s = (None, map (\<lambda>r. if r = j then j' else r) s)
            \<and> j' = j\<lparr>state := state j', attempts := attempts j', due_at := due_at j',
                      updated_at := updated_at j', last_error := last_error j',
                      picked_by := picked_by j'\<rparr>
            \<and> job_id j' = job_id j \<and> command j' = command j \<and> created_at j' = created_at j
            \<and> priority j' = priority j \<and> max_retries j' = max_retries j
            \<and> job_output j' = job_output j"
  using dlq_retry_hit [OF assms, of t_due t_upd]
  by (intro exI [of _ "j\<lparr>state := Pending, attempts := 0, due_at := now_iso t_due,
        updated_at := now_iso t_upd, last_error := None, picked_by := None\<rparr>"]) simp

theorem dlq_retry_frame_witness:
  "distinct (map job_id [demo_dead\<lparr>job_output := Some [111, 107, 10]\<rparr>])
   \<and> state (demo_dead\<lparr>job_output := Some [111, 107, 10]\<rparr>) = Dead
   \<and> (\<exists>j'. dlq_retry ''j5'' 63871286400250000 63871286400250000
               [demo_dead\<lparr>job_output := Some [111, 107, 10]\<rparr>] = (None, [j'])
            \<and> command j' = ''exit 1'' \<and> created_at j' = ''2025-01-01T00:00:00Z''
            \<and> priority j' = 0 \<and> max_retries j' = 1 \<and> job_output j' = Some [111, 107, 10])"
proof -
  let ?j = "demo_dead\<lparr>job_output := Some [111, 107, 10]\<rparr>"
  have h: "distinct (map job_id [?j])" "?j \<in> set [?j]" "state ?j = Dead"
    by (simp_all add: demo_dead_def demo_job_def)
  from dlq_retry_frame [OF h, of 63871286400250000 63871286400250000] h
  show ?thesis by (auto simp: demo_dead_def demo_job_def)
qed

subsection \<open>Timestamps\<close>

text \<open>
  What \<^verbatim>\<open>now_iso\<close> returns is canonical at every instant a \<^verbatim>\<open>datetime\<close> can hold: the
  fields of the calendar stay within their widths, the microseconds are cut, and the only
  \<open>+\<close> of the text is that of the offset, which becomes \<open>Z\<close>.
\<close>

lemma digit_char: "k < 10 \<Longrightarrow> ''0123456789'' ! k \<in> set ''0123456789''"
  by (rule nth_mem) simp

lemma digits_set: "set (digits n) \<subseteq> set ''0123456789''"
proof (induction n rule: digits.induct)
  case (1 n)
  show ?case
  proof (cases "n < 10")
    case True
    with digit_char [of n] show ?thesis by (subst digits.simps) simp
  next
    case False
    have "n mod 10 < 10" by simp
    from digit_char [OF this] 1 [OF False] False show ?thesis
      by (subst digits.simps) simp
  qed
qed

lemma digits_length: "0 < k \<Longrightarrow> n < 10 ^ k \<Longrightarrow> length (digits n) \<le> k"
proof (induction n arbitrary: k rule: digits.induct)
  case (1 n)
  show ?case
  proof (cases "n < 10")
    case True
    with 1(2) show ?thesis by (subst digits.simps) simp
  next
    case False
    from 1(2) obtain k' where k1: "k = Suc k'" by (cases k) auto
    have "0 < k'"
    proof (rule ccontr)
      assume "\<not> 0 < k'"
      with k1 1(3) False show False by simp
    qed
    note k = k1 this
    from 1(3) k have "n div 10 < 10 ^ k'"
      by (simp add: less_mult_imp_div_less mult.commute)
    from 1(1) [OF False k(2) this] k False show ?thesis
      by (subst digits.simps) simp
  qed
qed

lemma fmt_d_shape:
  assumes "0 < w" "0 \<le> n" "n < 10 ^ w"
  shows "length (fmt_d w n) = w \<and> set (fmt_d w n) \<subseteq> set ''0123456789''"
proof -
  from assms have "nat n < 10 ^ w"
    by (metis nat_less_iff of_nat_numeral of_nat_power)
  from digits_length [OF assms(1) this] digits_set [of "nat n"]
  show ?thesis by (auto simp: fmt_d_def Let_def)
qed

lemma fmt_d_2:
  assumes "0 \<le> n" "n < 100"
  obtains a b where "fmt_d 2 n = [a, b]" "a \<in> set ''0123456789''" "b \<in> set ''0123456789''"
proof -
  from fmt_d_shape [of 2 n] assms
  have l: "length (fmt_d 2 n) = 2" and s: "set (fmt_d 2 n) \<subseteq> set ''0123456789''" by simp_all
  from l obtain a b where "fmt_d 2 n = [a, b]"
    by (auto simp: length_Suc_conv numeral_2_eq_2)
  with s that show ?thesis by simp
qed

lemma fmt_d_4:
  assumes "0 \<le> n" "n < 10000"
  obtains a b c d where "fmt_d 4 n = [a, b, c, d]" "a \<in> set ''0123456789''"
    "b \<in> set ''0123456789''" "c \<in> set ''0123456789''" "d \<in> set ''0123456789''"
proof -
  from fmt_d_shape [of 4 n] assms
  have l: "length (fmt_d 4 n) = Suc (Suc (Suc (Suc 0)))"
    and s: "set (fmt_d 4 n) \<subseteq> set ''0123456789''" by simp_all
  from l obtain a b c d where "fmt_d 4 n = [a, b, c, d]"
    by (auto simp: length_Suc_conv)
  with s that show ?thesis by simp
qed

lemma month_day_range:
  fixes r :: int and L :: bool
  assumes "0 \<le> r" "r < 365"
  defines "mo \<equiv> (r + 50) div 32"
  defines "pre \<equiv> DAYS_BEFORE_MONTH ! nat mo + (if 2 < mo \<and> L then 1 else 0)"
  shows "1 \<le> mo \<and> mo \<le> 12
       \<and> (if r < pre
           then 0 \<le> r - (pre - (DAYS_IN_MONTH ! nat (mo - 1) + (if mo - 1 = 2 \<and> L then 1 else 0))) + 1
              \<and> r - (pre - (DAYS_IN_MONTH ! nat (mo - 1) + (if mo - 1 = 2 \<and> L then 1 else 0))) + 1 < 100
           else 0 \<le> r - pre + 1 \<and> r - pre + 1 < 100)"
proof -
  from assms(1,2) have b: "1 \<le> mo" "mo \<le> 12" unfolding mo_def by simp_all
  then have "mo = 1 \<or> mo = 2 \<or> mo = 3 \<or> mo = 4 \<or> mo = 5 \<or> mo = 6 \<or> mo = 7
    \<or> mo = 8 \<or> mo = 9 \<or> mo = 10 \<or> mo = 11 \<or> mo = 12" by arith
  then consider "mo = 1" | "mo = 2" | "mo = 3" | "mo = 4" | "mo = 5" | "mo = 6" | "mo = 7"
    | "mo = 8" | "mo = 9" | "mo = 10" | "mo = 11" | "mo = 12" by blast
  then have "if r < pre
           then 0 \<le> r - (pre - (DAYS_IN_MONTH ! nat (mo - 1) + (if mo - 1 = 2 \<and> L then 1 else 0))) + 1
              \<and> r - (pre - (DAYS_IN_MONTH ! nat (mo - 1) + (if mo - 1 = 2 \<and> L then 1 else 0))) + 1 < 100
           else 0 \<le> r - pre + 1 \<and> r - pre + 1 < 100"
  proof cases
    case 1
    then have "r + 50 < 64" unfolding mo_def by simp
    with 1 assms(1) show ?thesis
      by (simp add: pre_def DAYS_BEFORE_MONTH_def DAYS_IN_MONTH_def)
  next
    case 2
    then have "64 \<le> r + 50" "r + 50 < 96" unfolding mo_def by simp_all
    with 2 show ?thesis
      by (simp add: pre_def DAYS_BEFORE_MONTH_def DAYS_IN_MONTH_def)
  next
    case 3
    then have "96 \<le> r + 50" "r + 50 < 128" unfolding mo_def by simp_all
    with 3 show ?thesis
      by (simp add: pre_def DAYS_BEFORE_MONTH_def DAYS_IN_MONTH_def)
  next
    case 4
    then have "128 \<le> r + 50" "r + 50 < 160" unfolding mo_def by simp_all
    with 4 show ?thesis
      by (simp add: pre_def DAYS_BEFORE_MONTH_def DAYS_IN_MONTH_def)
  next
    case 5
    then have "160 \<le> r + 50" "r + 50 < 192" unfolding mo_def by simp_all
    with 5 show ?thesis
      by (simp add: pre_def DAYS_BEFORE_MONTH_def DAYS_IN_MONTH_def)
  next
    case 6
    then have "192 \<le> r + 50" "r + 50 < 224" unfolding mo_def by simp_all
    with 6 show ?thesis
      by (simp add: pre_def DAYS_BEFORE_MONTH_def DAYS_IN_MONTH_def)
  next
    case 7
    then have "224 \<le> r + 50" "r + 50 < 256" unfolding mo_def by simp_all
    with 7 show ?thesis
      by (simp add: pre_def DAYS_BEFORE_MONTH_def DAYS_IN_MONTH_def)
  next
    case 8
    then have "256 \<le> r + 50" "r + 50 < 288" unfolding mo_def by simp_all
    with 8 show ?thesis
      by (simp add: pre_def DAYS_BEFORE_MONTH_def DAYS_IN_MONTH_def)
  next
    case 9
    then have "288 \<le> r + 50" "r + 50 < 320" unfolding mo_def by simp_all
    with 9 show ?thesis
      by (simp add: pre_def DAYS_BEFORE_MONTH_def DAYS_IN_MONTH_def)
  next
    case 10
    then have "320 \<le> r + 50" "r + 50 < 352" unfolding mo_def by simp_all
    with 10 show ?thesis
      by (simp add: pre_def DAYS_BEFORE_MONTH_def DAYS_IN_MONTH_def)
  next
    case 11
    then have "352 \<le> r + 50" "r + 50 < 384" unfolding mo_def by simp_all
    with 11 show ?thesis
      by (simp add: pre_def DAYS_BEFORE_MONTH_def DAYS_IN_MONTH_def)
  next
    case 12
    then have "384 \<le> r + 50" unfolding mo_def by simp
    with 12 assms(2) show ?thesis
      by (simp add: pre_def DAYS_BEFORE_MONTH_def DAYS_IN_MONTH_def)
  qed
  with b show ?thesis by simp
qed

lemma ymd_of_counts_range:
  assumes r: "0 \<le> r" "r < 365"
    and y0: "0 \<le> a * 400 + b * 100 + c * 4 + e"
    and y1: "a * 400 + b * 100 + c * 4 + e < 10000"
    and y2: "b \<le> 3 \<Longrightarrow> e \<le> 3 \<Longrightarrow> a * 400 + b * 100 + c * 4 + e < 9999"
    and q: "b \<le> 4" "e \<le> 4"
  obtains y m d where "ymd_of_counts a b c e r = (y, m, d)" "0 \<le> y" "y < 10000"
    "0 \<le> m" "m < 100" "0 \<le> d" "d < 100"
proof (cases "e = 4 \<or> b = 4")
  case True
  then have "ymd_of_counts a b c e r = (a * 400 + 1 + b * 100 + c * 4 + e - 1, 12, 31)"
    by (simp add: ymd_of_counts_def Let_def)
  with y0 y1 that show ?thesis by simp
next
  case False
  with q have "b \<le> 3" "e \<le> 3" by simp_all
  from y2 [OF this] have y3: "a * 400 + 1 + b * 100 + c * 4 + e < 10000" by simp
  from y0 have y4: "0 \<le> a * 400 + 1 + b * 100 + c * 4 + e" by simp
  define L where "L \<longleftrightarrow> e = 3 \<and> (c \<noteq> 24 \<or> b = 3)"
  let ?mo = "(r + 50) div 32"
  let ?pre = "DAYS_BEFORE_MONTH ! nat ?mo + (if 2 < ?mo \<and> L then 1 else 0)"
  note md = month_day_range [OF r, of L]
  show ?thesis
  proof (cases "r < ?pre")
    case True
    with False have o: "ymd_of_counts a b c e r = (a * 400 + 1 + b * 100 + c * 4 + e, ?mo - 1,
        r - (?pre - (DAYS_IN_MONTH ! nat (?mo - 1) + (if ?mo - 1 = 2 \<and> L then 1 else 0))) + 1)"
      by (simp add: ymd_of_counts_def Let_def L_def)
    from md True have "0 \<le> ?mo - 1" "?mo - 1 < 100"
      "0 \<le> r - (?pre - (DAYS_IN_MONTH ! nat (?mo - 1) + (if ?mo - 1 = 2 \<and> L then 1 else 0))) + 1"
      "r - (?pre - (DAYS_IN_MONTH ! nat (?mo - 1) + (if ?mo - 1 = 2 \<and> L then 1 else 0))) + 1 < 100"
      by simp_all
    from that [OF o y4 y3 this] show ?thesis .
  next
    case n: False
    with False have o: "ymd_of_counts a b c e r = (a * 400 + 1 + b * 100 + c * 4 + e, ?mo, r - ?pre + 1)"
      by (simp add: ymd_of_counts_def Let_def L_def)
    from md n have "0 \<le> ?mo" "?mo < 100" "0 \<le> r - ?pre + 1" "r - ?pre + 1 < 100"
      by simp_all
    from that [OF o y4 y3 this] show ?thesis .
  qed
qed

lemma ord2ymd_range:
  assumes "1 \<le> n" "n \<le> 3652059"
  obtains y m d where "ord2ymd n = (y, m, d)" "0 \<le> y" "y < 10000" "0 \<le> m" "m < 100"
    "0 \<le> d" "d < 100"
proof -
  define a where "a = (n - 1) div 146097"
  define r1 where "r1 = (n - 1) mod 146097"
  define b where "b = r1 div 36524"
  define r2 where "r2 = r1 mod 36524"
  define c where "c = r2 div 1461"
  define r3 where "r3 = r2 mod 1461"
  define e where "e = r3 div 365"
  define r4 where "r4 = r3 mod 365"
  have o: "ord2ymd n = ymd_of_counts a b c e r4"
    unfolding ord2ymd_def Let_def a_def r1_def b_def r2_def c_def r3_def e_def r4_def ..
  have eq: "n - 1 = 146097 * a + r1" "r1 = 36524 * b + r2" "r2 = 1461 * c + r3"
    "r3 = 365 * e + r4"
    unfolding a_def r1_def b_def r2_def c_def r3_def e_def r4_def
    by (simp_all only: mult_div_mod_eq)
  have bd: "0 \<le> r1" "r1 < 146097" "0 \<le> r2" "r2 < 36524" "0 \<le> r3" "r3 < 1461"
    "0 \<le> r4" "r4 < 365"
    unfolding r1_def r2_def r3_def r4_def by simp_all
  from assms(1) have a0: "0 \<le> a" unfolding a_def by (simp add: pos_imp_zdiv_nonneg_iff)
  from bd(1) have b0: "0 \<le> b" unfolding b_def by (simp add: pos_imp_zdiv_nonneg_iff)
  from bd(3) have c0: "0 \<le> c" unfolding c_def by (simp add: pos_imp_zdiv_nonneg_iff)
  from bd(5) have e0: "0 \<le> e" unfolding e_def by (simp add: pos_imp_zdiv_nonneg_iff)
  from eq bd b0 c0 e0 have q1: "b \<le> 4" "c \<le> 24" "e \<le> 4" by linarith+
  from a0 b0 c0 e0 have y0: "0 \<le> a * 400 + b * 100 + c * 4 + e" by simp
  from eq bd a0 b0 c0 e0 q1 assms(2) have y1: "a * 400 + b * 100 + c * 4 + e < 10000"
    by linarith
  have y2: "a * 400 + b * 100 + c * 4 + e < 9999" if "b \<le> 3" "e \<le> 3"
    using that eq bd a0 b0 c0 e0 q1 assms(2) by linarith
  from ymd_of_counts_range [OF bd(7,8) y0 y1 y2 q1(1,3)] o that show ?thesis
    by metis
qed

lemma str_replace_skip:
  assumes "\<forall>c\<in>set p. c \<noteq> x"
  shows "str_replace (x # xs) new (p @ r) = p @ str_replace (x # xs) new r"
  using assms by (induction p) (simp_all add: startswith_def)

lemma digit_not_plus: "c \<in> set ''0123456789'' \<Longrightarrow> c \<noteq> CHR ''+''"
  by auto

lemma canonical_shape:
  assumes "y1 \<in> set ''0123456789''" "y2 \<in> set ''0123456789''" "y3 \<in> set ''0123456789''"
    "y4 \<in> set ''0123456789''" "m1 \<in> set ''0123456789''" "m2 \<in> set ''0123456789''"
    "d1 \<in> set ''0123456789''" "d2 \<in> set ''0123456789''" "h1 \<in> set ''0123456789''"
    "h2 \<in> set ''0123456789''" "i1 \<in> set ''0123456789''" "i2 \<in> set ''0123456789''"
    "s1 \<in> set ''0123456789''" "s2 \<in> set ''0123456789''"
  shows "canonical [y1, y2, y3, y4, CHR ''-'', m1, m2, CHR ''-'', d1, d2, CHR ''T'',
             h1, h2, CHR '':'', i1, i2, CHR '':'', s1, s2, CHR ''Z'']"
  unfolding canonical_def using assms by (simp del: set_simps)

lemma now_iso_canonical:
  assumes "valid_instant t"
  shows "canonical (now_iso t)"
proof -
  define t0 where "t0 = replace_microsecond_0 t"
  have t0: "t0 = t div 1000000 * 1000000"
    by (simp add: t0_def replace_microsecond_0_def dt_microsecond_def minus_mod_eq_div_mult)
  from assms have v: "0 \<le> t" "t < 315537897600000000"
    by (simp_all add: valid_instant_def MAXORDINAL_def US_PER_DAY_def)
  have le: "t0 \<le> t" by (simp add: t0_def replace_microsecond_0_def dt_microsecond_def)
  from v(1) have ge: "0 \<le> t0" unfolding t0 by (simp add: pos_imp_zdiv_nonneg_iff)
  have us: "dt_microsecond t0 = 0" by (simp add: t0 dt_microsecond_def)
  from ge have "0 \<le> t0 div 86400000000" by (simp add: pos_imp_zdiv_nonneg_iff)
  moreover from le v(2) have "t0 div 86400000000 \<le> 3652058" by simp
  ultimately have ord: "1 \<le> dt_ordinal t0" "dt_ordinal t0 \<le> 3652059"
    by (simp_all add: dt_ordinal_def US_PER_DAY_def)
  define sod where "sod = dt_second_of_day t0"
  have sod: "0 \<le> sod" "sod < 86400"
    by (simp_all add: sod_def dt_second_of_day_def US_PER_DAY_def pos_imp_zdiv_nonneg_iff)
  then have hms: "0 \<le> sod div 3600" "sod div 3600 < 100" "0 \<le> sod mod 3600 div 60"
    "sod mod 3600 div 60 < 100" "0 \<le> sod mod 60" "sod mod 60 < 100"
    by (simp_all add: pos_imp_zdiv_nonneg_iff)
  from ord2ymd_range [OF ord] obtain y m d where ymd: "ord2ymd (dt_ordinal t0) = (y, m, d)"
    and r: "0 \<le> y" "y < 10000" "0 \<le> m" "m < 100" "0 \<le> d" "d < 100"
    by blast
  from fmt_d_4 [OF r(1,2)] obtain y1 y2 y3 y4 where fy: "fmt_d 4 y = [y1, y2, y3, y4]"
    and dy: "y1 \<in> set ''0123456789''" "y2 \<in> set ''0123456789''" "y3 \<in> set ''0123456789''"
      "y4 \<in> set ''0123456789''"
    by blast
  from fmt_d_2 [OF r(3,4)] obtain m1 m2 where fm: "fmt_d 2 m = [m1, m2]"
    and dm: "m1 \<in> set ''0123456789''" "m2 \<in> set ''0123456789''" by blast
  from fmt_d_2 [OF r(5,6)] obtain d1 d2 where fd: "fmt_d 2 d = [d1, d2]"
    and dd: "d1 \<in> set ''0123456789''" "d2 \<in> set ''0123456789''" by blast
  from fmt_d_2 [OF hms(1,2)] obtain h1 h2 where fh: "fmt_d 2 (sod div 3600) = [h1, h2]"
    and dh: "h1 \<in> set ''0123456789''" "h2 \<in> set ''0123456789''" by blast
  from fmt_d_2 [OF hms(3,4)] obtain i1 i2 where fi: "fmt_d 2 (sod mod 3600 div 60) = [i1, i2]"
    and di: "i1 \<in> set ''0123456789''" "i2 \<in> set ''0123456789''" by blast
  from fmt_d_2 [OF hms(5,6)] obtain s1 s2 where fs: "fmt_d 2 (sod mod 60) = [s1, s2]"
    and ds: "s1 \<in> set ''0123456789''" "s2 \<in> set ''0123456789''" by blast
  note dg = dy dm dd dh di ds
  let ?p = "[y1, y2, y3, y4, CHR ''-'', m1, m2, CHR ''-'', d1, d2, CHR ''T'',
             h1, h2, CHR '':'', i1, i2, CHR '':'', s1, s2]"
  have iso: "isoformat (CHR ''T'') t0 = ?p @ ''+00:00''"
    unfolding isoformat_def ymd us Let_def sod_def [symmetric]
    by (simp add: fy fm fd fh fi fs)
  have np: "\<forall>c\<in>set ?p. c \<noteq> CHR ''+''"
    using dg [THEN digit_not_plus] by simp
  have "now_iso t = str_replace ''+00:00'' ''Z'' (?p @ ''+00:00'')"
    by (simp only: now_iso_def t0_def [symmetric] iso)
  also have "\<dots> = ?p @ str_replace ''+00:00'' ''Z'' ''+00:00''"
    by (rule str_replace_skip [OF np])
  also have "str_replace ''+00:00'' ''Z'' ''+00:00'' = ''Z''"
    by (simp add: startswith_def)
  finally have "now_iso t = ?p @ ''Z''" .
  with canonical_shape [OF dg] show ?thesis by simp
qed

text \<open>
  C8. The specification has every stored timestamp in the canonical form
  \<^verbatim>\<open>YYYY-MM-DDTHH:MM:SSZ\<close>, the failed-retry commit included. That branch binds \<^verbatim>\<open>now\<close> to a
  \<^verbatim>\<open>datetime\<close> and never cuts the microseconds: for a claimed job that fails at
  2025-01-01T00:00:00.25 with base 2, \<open>updated_at\<close> becomes the adapter's text
  \<^verbatim>\<open>2025-01-01 00:00:00.250000+00:00\<close> and \<open>due_at\<close> becomes \<^verbatim>\<open>2025-01-01T00:00:02.250000Z\<close>.
  Neither is canonical, and \<open>updated_at\<close> is not even when the reading has no microseconds,
  while \<^verbatim>\<open>now_iso\<close>, which every other write uses, gives the canonical text of the same
  reading.
\<close>

theorem failed_retry_writes_other_formats:
  "process_job_commit 2 63871286400250000 63871286400250000 (returning_row (demo_claimed 0))
     (False, [], Some ''Command failed with exit code 1'') [demo_claimed 0]
   = (None,
      [\<lparr> job_id = ''a'', command = ''exit 1'', state = Failed, attempts = 1, max_retries = 1,
          created_at = ''2025-01-01T00:00:00Z'', updated_at = ''2025-01-01 00:00:00.250000+00:00'',
          due_at = ''2025-01-01T00:00:02.250000Z'',
          last_error = Some ''Command failed with exit code 1'', job_output = None,
          priority = 0, picked_by = None \<rparr>])
   \<and> \<not> canonical ''2025-01-01 00:00:00.250000+00:00''
   \<and> \<not> canonical ''2025-01-01T00:00:02.250000Z''
   \<and> map updated_at
         (snd (process_job_commit 2 63871286400000000 63871286400000000 (returning_row (demo_claimed 0))
                 (False, [], Some ''Command failed with exit code 1'') [demo_claimed 0]))
       = [''2025-01-01 00:00:00+00:00'']
   \<and> \<not> canonical ''2025-01-01 00:00:00+00:00''
   \<and> canonical (now_iso 63871286400250000)"
  by (simp add: op_eval commit_eval clock_eval canonical_def)

subsection \<open>Store path\<close>

text \<open>
  C9. The spec resolves the store path so that \<^verbatim>\<open>QUEUECTL_DB\<close>, when set, wins over
  \<^verbatim>\<open>DATABASE_URL\<close>. The code tests \<^verbatim>\<open>DATABASE_URL\<close> (whose default begins with
  \<^verbatim>\<open>sqlite:///\<close>) whenever \<^verbatim>\<open>QUEUECTL_DB\<close> does not itself begin with that prefix, so a
  plain path in \<^verbatim>\<open>QUEUECTL_DB\<close> is dropped: with \<^verbatim>\<open>QUEUECTL_DB=test_queuectl.db\<close>, the
  setting of the repository's own test script, and \<^verbatim>\<open>DATABASE_URL\<close> unset, the store
  opened is \<^verbatim>\<open>queuectl.db\<close>; and a value set in both variables loses to
  \<^verbatim>\<open>DATABASE_URL\<close> as well.
\<close>

theorem connect_ignores_plain_QUEUECTL_DB:
  "connect_db_path [''QUEUECTL_DB'' \<mapsto> ''test_queuectl.db''] = ''queuectl.db''
   \<and> connect_db_path [''QUEUECTL_DB'' \<mapsto> ''a.db'', ''DATABASE_URL'' \<mapsto> ''sqlite:///b.db''] = ''b.db''"
  by (simp add: connect_db_path_def QUEUECTL_DB_def DATABASE_URL_def getenv_def startswith_def)

text \<open>
  What does hold: with neither variable set the path is \<^verbatim>\<open>queuectl.db\<close>, and a
  \<^verbatim>\<open>QUEUECTL_DB\<close> that itself begins with \<^verbatim>\<open>sqlite:///\<close> wins, with the prefix removed.
\<close>

lemma connect_default: "connect_db_path Map.empty = ''queuectl.db''"
  by (simp add: connect_db_path_def QUEUECTL_DB_def DATABASE_URL_def getenv_def startswith_def)

lemma connect_url_in_QUEUECTL_DB:
  "connect_db_path [''QUEUECTL_DB'' \<mapsto> ''sqlite:///a.db'', ''DATABASE_URL'' \<mapsto> ''sqlite:///b.db'']
   = ''a.db''"
  by (simp add: connect_db_path_def QUEUECTL_DB_def DATABASE_URL_def getenv_def startswith_def)

end
